theory Spec2Isabelle
  imports Complex_Main "HOL-Library.Word" "HOL-Library.Multiset" "HOL-Library.List_Lexorder"
begin

unbundle bit_operations_syntax

section \<open>Conventions of the embedding\<close>

text \<open>
  The C++ exceptions thrown by the library are values of the datatype \<open>error\<close>; a function
  that may throw returns \<open>error + 'a\<close> with \<open>Inl\<close> for the exception. The classes follow the
  standard hierarchy: \<open>std::range_error\<close> derives from \<open>std::runtime_error\<close> and
  \<open>std::invalid_argument\<close> from \<open>std::logic_error\<close>, so a handler for
  \<open>runtime_error\<close> also catches a \<open>range_error\<close>. \<open>Arithmetic_error\<close> is the exception of
  the numeric backend for a division by zero. The constructor \<open>Undefined\<close> stands for
  behaviour the C++ standard leaves undefined (reading a variable that a failed stream
  extraction never assigned, subscripting a vector out of range); it is not an exception
  and no handler catches it. Machine \<open>int\<close> values are modelled by \<open>int\<close>, table indices
  and sizes by \<open>nat\<close>, and the 32-bit quantities of the archive wire format by \<open>32 word\<close>.
\<close>

datatype error =
    Range_error string
  | Runtime_error string
  | Logic_error string
  | Invalid_argument string
  | Arithmetic_error string
  | Undefined string

type_synonym 'a result = "error + 'a"

text \<open>
  Sequencing of two steps: an exception of the first step leaves the function, otherwise
  the second step runs on the value of the first.
\<close>

definition on_success :: "'a result \<Rightarrow> ('a \<Rightarrow> 'b result) \<Rightarrow> 'b result" where
  "on_success r f = (case r of Inl err \<Rightarrow> Inl err | Inr x \<Rightarrow> f x)"

text \<open>
  A handler \<open>catch (const runtime_error &)\<close> takes the exceptions of the class
  \<open>runtime_error\<close> and of the classes derived from it, of which the sources throw
  \<open>range_error\<close>; \<open>logic_error\<close> and \<open>invalid_argument\<close> are not among them. The class of
  the arithmetic error of the numeric layer is not in the sources; it is taken here not to
  derive from \<open>runtime_error\<close>, and what is proved of a handler speaks of the four
  classes the sources throw.
\<close>

fun is_runtime_error :: "error \<Rightarrow> bool" where
  "is_runtime_error (Range_error _) = True"
| "is_runtime_error (Runtime_error _) = True"
| "is_runtime_error _ = False"

type_synonym byte = "8 word"
type_synonym u32 = "32 word"

section \<open>Expression handles (ex.h)\<close>

text \<open>
  A handle \<open>ex\<close> holds the address \<open>bp\<close> of a node. The store maps addresses to the
  per-node data the handle operations touch (the reference count). \<open>exZERO()\<close> returns a
  reference to a static handle whose definition is not part of ex.h, so the handle it
  returns is a parameter named \<open>exZERO\<close> of the functions that call it. The virtual
  \<open>basic::compare\<close> is a parameter as well.
\<close>

record ex =
  bp :: nat

record basic_hdr =
  refcount :: nat

type_synonym store = "nat \<Rightarrow> basic_hdr"

text \<open>\<open>ex::ex()\<close>: attach to the node of \<open>exZERO()\<close> and increment its reference count.\<close>

definition ex_default :: "ex \<Rightarrow> store \<Rightarrow> ex \<times> store" where
  "ex_default exZERO h =
     (let this = \<lparr>bp = bp exZERO\<rparr>
      in (this, h(bp this := (h (bp this))\<lparr>refcount := refcount (h (bp this)) + 1\<rparr>)))"

text \<open>\<open>ex::compare\<close>: equal addresses compare as 0 before the node is consulted.\<close>

definition compare :: "(nat \<Rightarrow> nat \<Rightarrow> int) \<Rightarrow> ex \<Rightarrow> ex \<Rightarrow> int" where
  "compare basic_compare this other =
     (if bp this = bp other then 0 else basic_compare (bp this) (bp other))"

definition is_zero :: "(nat \<Rightarrow> nat \<Rightarrow> int) \<Rightarrow> ex \<Rightarrow> ex \<Rightarrow> bool" where
  "is_zero basic_compare exZERO this = (compare basic_compare this exZERO = 0)"

section \<open>Archive (archive.cpp)\<close>

subsection \<open>Wire encoding of unsigned quantities\<close>

text \<open>
  The output stream is the list of bytes written so far; \<open>os.put(c)\<close> appends the low eight
  bits of its argument.
\<close>

function write_unsigned :: "byte list \<Rightarrow> u32 \<Rightarrow> byte list" where
  "write_unsigned os val =
     (if val \<ge> 0x80
      then write_unsigned (os @ [ucast ((val AND 0x7f) OR 0x80)]) (drop_bit 7 val)
      else os @ [ucast val])"
  by pat_completeness auto
termination
proof (relation "measure (\<lambda>(os, val). unat val)")
  show "wf (measure (\<lambda>(os, val). unat val))" by simp
next
  fix os :: "byte list" and val :: u32
  assume "0x80 \<le> val"
  then have "128 \<le> unat val" by (simp add: word_le_nat_alt)
  then have "unat val div 128 < unat val" by simp
  then show "((os @ [ucast ((val AND 0x7f) OR 0x80)], drop_bit 7 val), (os, val))
        \<in> measure (\<lambda>(os, val). unat val)"
    by (simp add: drop_bit_eq_div unat_div)
qed

declare write_unsigned.simps [simp del]

text \<open>
  The input stream is the list of bytes still to be read. \<open>is.get(c)\<close> on an exhausted
  stream assigns nothing, and every caller in this file then reads the unassigned
  variable: that is \<open>Undefined\<close>.
\<close>

fun get :: "byte list \<Rightarrow> (byte \<times> byte list) result" where
  "get [] = Inl (Undefined ''read from exhausted stream'')"
| "get (b # is) = Inr (b, is)"

text \<open>
  \<open>read_unsigned\<close>: the do-while loop with its variables \<open>ret\<close> and \<open>shift\<close>. A shift count
  of 32 or more is undefined for a 32-bit operand.
\<close>

fun read_unsigned_loop :: "byte list \<Rightarrow> u32 \<Rightarrow> nat \<Rightarrow> (u32 \<times> byte list) result" where
  "read_unsigned_loop [] ret shift = Inl (Undefined ''read from exhausted stream'')"
| "read_unsigned_loop (b # is) ret shift =
     (if shift \<ge> 32 then Inl (Undefined ''shift count out of range'')
      else let ret' = ret OR push_bit shift (ucast (b AND 0x7f))
           in if b AND 0x80 \<noteq> 0 then read_unsigned_loop is ret' (shift + 7)
              else Inr (ret', is))"

definition read_unsigned :: "byte list \<Rightarrow> (u32 \<times> byte list) result" where
  "read_unsigned is = read_unsigned_loop is 0 0"

subsection \<open>Archive tables\<close>

type_synonym archive_atom = nat
type_synonym archive_node_id = nat

text \<open>
  \<open>property_type\<close> is an enumeration of archive.h; a stream can hold any value of the
  three type bits, so the model keeps the number.
\<close>

record property =
  ptype :: nat
  pname :: archive_atom
  pvalue :: nat

definition PTYPE_BOOL :: nat where "PTYPE_BOOL = 0"
definition PTYPE_UNSIGNED :: nat where "PTYPE_UNSIGNED = 1"
definition PTYPE_STRING :: nat where "PTYPE_STRING = 2"
definition PTYPE_NODE :: nat where "PTYPE_NODE = 3"

text \<open>
  Record fields share one name space, so the member \<open>e\<close> of \<open>archive_node\<close> is the field
  \<open>node_e\<close>, and the members \<open>name\<close> and \<open>root\<close> of \<open>archived_ex\<close> are \<open>ex_name\<close> and
  \<open>ex_root\<close>.
\<close>

record archive_node =
  props :: "property list"
  has_expression :: bool
  node_e :: ex

record archived_ex =
  ex_name :: archive_atom
  ex_root :: archive_node_id

record archive =
  atoms :: "string list"
  exprs :: "archived_ex list"
  nodes :: "archive_node list"

definition has_same_ex_as :: "archive_node \<Rightarrow> archive_node \<Rightarrow> bool" where
  "has_same_ex_as this other =
     (if \<not> has_expression this \<or> \<not> has_expression other then False
      else bp (node_e this) = bp (node_e other))"

text \<open>
  \<open>archive::add_node\<close>: the search loop returns \<open>Inl\<close> of the counter when it leaves
  through \<open>return id\<close> and \<open>Inr\<close> of it when it runs to the end of the vector. The
  counter \<open>id\<close> of the source is called \<open>ident\<close>.
\<close>

fun add_node_search :: "archive_node list \<Rightarrow> archive_node \<Rightarrow> archive_node_id
    \<Rightarrow> archive_node_id + archive_node_id" where
  "add_node_search [] n ident = Inr ident"
| "add_node_search (i # rest) n ident =
     (if has_same_ex_as i n then Inl ident else add_node_search rest n (ident + 1))"

definition add_node :: "archive \<Rightarrow> archive_node \<Rightarrow> archive_node_id \<times> archive" where
  "add_node ar n =
     (case add_node_search (nodes ar) n 0 of
        Inl ident \<Rightarrow> (ident, ar)
      | Inr ident \<Rightarrow> (ident, ar\<lparr>nodes := nodes ar @ [n]\<rparr>))"

definition get_node :: "archive \<Rightarrow> archive_node_id \<Rightarrow> archive_node result" where
  "get_node ar ident =
     (if ident \<ge> length (nodes ar)
      then Inl (Range_error ''archive::get_node(): archive node ID out of range'')
      else Inr (nodes ar ! ident))"

fun atomize_search :: "string list \<Rightarrow> string \<Rightarrow> archive_atom
    \<Rightarrow> archive_atom + archive_atom" where
  "atomize_search [] s ident = Inr ident"
| "atomize_search (i # rest) s ident =
     (if i = s then Inl ident else atomize_search rest s (ident + 1))"

definition atomize :: "archive \<Rightarrow> string \<Rightarrow> archive_atom \<times> archive" where
  "atomize ar s =
     (case atomize_search (atoms ar) s 0 of
        Inl ident \<Rightarrow> (ident, ar)
      | Inr ident \<Rightarrow> (ident, ar\<lparr>atoms := atoms ar @ [s]\<rparr>))"

definition unatomize :: "archive \<Rightarrow> archive_atom \<Rightarrow> string result" where
  "unatomize ar ident =
     (if ident \<ge> length (atoms ar)
      then Inl (Range_error ''archive::unatomizee(): atom ID out of range'')
      else Inr (atoms ar ! ident))"


subsection \<open>Archiving an expression\<close>

text \<open>
  \<open>archive_node::archive_node(archive &ar, const ex &expr)\<close> calls the virtual
  \<open>expr.bp->archive(*this)\<close>, whose overriders are not part of archive.cpp; each of them is a
  sequence of calls of \<open>add_bool\<close>, \<open>add_unsigned\<close>, \<open>add_string\<close> and \<open>add_ex\<close> on the node
  under construction. An expression to be archived is therefore given as the address of
  its node together with the calls its hook makes; \<open>add_ex\<close> carries the sub-expression.
  Expressions are acyclic, so this unfolding is a finite tree in which a shared node
  appears once per reference, each time with the same address. The archive is passed
  through every call because \<open>atomize\<close> and \<open>add_node\<close> extend it. In \<open>add_string\<close> the
  two calls of \<open>atomize\<close> are arguments of one constructor call, and C++ leaves the order
  in which they run to the compiler: \<open>value_first\<close> says that the value is atomized before
  the name. The order decides the numbers of the two atoms when both are new.
\<close>

datatype hook_call =
    Add_bool string bool
  | Add_unsigned string nat
  | Add_string string string
  | Add_ex string node
and node = Node nat "hook_call list"

fun archive_node_ctor :: "bool \<Rightarrow> archive \<Rightarrow> node \<Rightarrow> archive \<times> archive_node"
and run_hook :: "bool \<Rightarrow> archive \<Rightarrow> archive_node \<Rightarrow> hook_call list \<Rightarrow> archive \<times> archive_node"
where
  "archive_node_ctor value_first ar (Node p calls) =
     run_hook value_first ar \<lparr>props = [], has_expression = True, node_e = \<lparr>bp = p\<rparr>\<rparr> calls"
| "run_hook value_first ar n [] = (ar, n)"
| "run_hook value_first ar n (Add_bool nm v # calls) =
     (let (a, ar1) = atomize ar nm
      in run_hook value_first ar1
           (n\<lparr>props := props n @ [\<lparr>ptype = PTYPE_BOOL, pname = a, pvalue = (if v then 1 else 0)\<rparr>]\<rparr>)
           calls)"
| "run_hook value_first ar n (Add_unsigned nm v # calls) =
     (let (a, ar1) = atomize ar nm
      in run_hook value_first ar1
           (n\<lparr>props := props n @ [\<lparr>ptype = PTYPE_UNSIGNED, pname = a, pvalue = v\<rparr>]\<rparr>)
           calls)"
| "run_hook value_first ar n (Add_string nm v # calls) =
     (let (a, b, ar2) =
            (if value_first
             then (let (b, ar1) = atomize ar v; (a, ar2) = atomize ar1 nm in (a, b, ar2))
             else (let (a, ar1) = atomize ar nm; (b, ar2) = atomize ar1 v in (a, b, ar2)))
      in run_hook value_first ar2
           (n\<lparr>props := props n @ [\<lparr>ptype = PTYPE_STRING, pname = a, pvalue = b\<rparr>]\<rparr>)
           calls)"
| "run_hook value_first ar n (Add_ex nm v # calls) =
     (let (ar1, child) = archive_node_ctor value_first ar v;
          (ident, ar2) = add_node ar1 child;
          (a, ar3) = atomize ar2 nm
      in run_hook value_first ar3
           (n\<lparr>props := props n @ [\<lparr>ptype = PTYPE_NODE, pname = a, pvalue = ident\<rparr>]\<rparr>)
           calls)"

definition archive_ex :: "bool \<Rightarrow> archive \<Rightarrow> node \<Rightarrow> string \<Rightarrow> archive" where
  "archive_ex value_first ar ex_e nm =
     (let (ar1, n) = archive_node_ctor value_first ar ex_e;
          (ident, ar2) = add_node ar1 n;
          (a, ar3) = atomize ar2 nm
      in ar3\<lparr>exprs := exprs ar3 @ [\<lparr>ex_name = a, ex_root = ident\<rparr>]\<rparr>)"

text \<open>
  A client fills an archive by calls of \<open>archive_ex\<close> and \<open>add_node\<close>, starting from the
  archive without entries that the default constructor makes.
\<close>

datatype archive_call = Call_add_node archive_node | Call_archive_ex node string

fun run_calls :: "bool \<Rightarrow> archive \<Rightarrow> archive_call list \<Rightarrow> archive" where
  "run_calls value_first ar [] = ar"
| "run_calls value_first ar (Call_add_node n # calls) =
     run_calls value_first (snd (add_node ar n)) calls"
| "run_calls value_first ar (Call_archive_ex ex_e nm # calls) =
     run_calls value_first (archive_ex value_first ar ex_e nm) calls"

definition empty_archive :: archive where
  "empty_archive = \<lparr>atoms = [], exprs = [], nodes = []\<rparr>"

text \<open>The node table holds at most one node per expression address.\<close>

definition one_node_per_ex :: "archive \<Rightarrow> bool" where
  "one_node_per_ex ar =
     distinct (map (\<lambda>n. bp (node_e n)) (filter has_expression (nodes ar)))"

subsection \<open>Reading an archive from a stream\<close>

text \<open>
  \<open>getline(is, str, '\0')\<close> extracts up to the next zero byte. When the stream ends
  first the stream fails, and the \<open>read_unsigned\<close> that follows every atom loop then
  reads an unassigned variable, so the model reports \<open>Undefined\<close> at once.
\<close>

fun getline :: "byte list \<Rightarrow> (string \<times> byte list) result" where
  "getline [] = Inl (Undefined ''read from exhausted stream'')"
| "getline (b # is) =
     (if b = 0 then Inr ([], is)
      else case getline is of
             Inl err \<Rightarrow> Inl err
           | Inr (str, is') \<Rightarrow> Inr (char_of (unat b) # str, is'))"

fun read_atoms :: "nat \<Rightarrow> byte list \<Rightarrow> (string list \<times> byte list) result" where
  "read_atoms 0 is = Inr ([], is)"
| "read_atoms (Suc k) is =
     (case getline is of
        Inl err \<Rightarrow> Inl err
      | Inr (str, is1) \<Rightarrow>
          (case read_atoms k is1 of
             Inl err \<Rightarrow> Inl err
           | Inr (strs, is2) \<Rightarrow> Inr (str # strs, is2)))"

fun read_exprs :: "nat \<Rightarrow> byte list \<Rightarrow> (archived_ex list \<times> byte list) result" where
  "read_exprs 0 is = Inr ([], is)"
| "read_exprs (Suc k) is =
     (case read_unsigned is of
        Inl err \<Rightarrow> Inl err
      | Inr (nm, is1) \<Rightarrow>
          (case read_unsigned is1 of
             Inl err \<Rightarrow> Inl err
           | Inr (rt, is2) \<Rightarrow>
               (case read_exprs k is2 of
                  Inl err \<Rightarrow> Inl err
                | Inr (aes, is3) \<Rightarrow>
                    Inr (\<lparr>ex_name = unat nm, ex_root = unat rt\<rparr> # aes, is3))))"

fun read_props :: "nat \<Rightarrow> byte list \<Rightarrow> (property list \<times> byte list) result" where
  "read_props 0 is = Inr ([], is)"
| "read_props (Suc k) is =
     (case read_unsigned is of
        Inl err \<Rightarrow> Inl err
      | Inr (name_type, is1) \<Rightarrow>
          (case read_unsigned is1 of
             Inl err \<Rightarrow> Inl err
           | Inr (v, is2) \<Rightarrow>
               (case read_props k is2 of
                  Inl err \<Rightarrow> Inl err
                | Inr (ps, is3) \<Rightarrow>
                    Inr (\<lparr>ptype = unat (name_type AND 7),
                          pname = unat (drop_bit 3 name_type),
                          pvalue = unat v\<rparr> # ps, is3))))"

text \<open>\<open>operator>>(std::istream &, archive_node &)\<close>: only the properties are replaced.\<close>

definition read_archive_node :: "byte list \<Rightarrow> archive_node \<Rightarrow> (archive_node \<times> byte list) result" where
  "read_archive_node is n =
     (case read_unsigned is of
        Inl err \<Rightarrow> Inl err
      | Inr (num_props, is1) \<Rightarrow>
          (case read_props (unat num_props) is1 of
             Inl err \<Rightarrow> Inl err
           | Inr (ps, is2) \<Rightarrow> Inr (n\<lparr>props := ps\<rparr>, is2)))"

fun read_nodes :: "archive_node list \<Rightarrow> byte list \<Rightarrow> (archive_node list \<times> byte list) result" where
  "read_nodes [] is = Inr ([], is)"
| "read_nodes (n # ns) is =
     (case read_archive_node is n of
        Inl err \<Rightarrow> Inl err
      | Inr (n', is1) \<Rightarrow>
          (case read_nodes ns is1 of
             Inl err \<Rightarrow> Inl err
           | Inr (ns', is2) \<Rightarrow> Inr (n' # ns', is2)))"

text \<open>\<open>std::vector::resize(n, value)\<close>.\<close>

definition resize :: "'a list \<Rightarrow> nat \<Rightarrow> 'a \<Rightarrow> 'a list" where
  "resize v k x = take k v @ replicate (k - length v) x"

text \<open>
  \<open>operator>>(std::istream &, archive &)\<close>. The macros \<open>ARCHIVE_VERSION\<close> and
  \<open>ARCHIVE_AGE\<close> come from config.h, which is not part of the sources, and are parameters;
  the comparison with the \<open>unsigned\<close> \<open>version\<close> is made in unsigned 32-bit arithmetic. New
  elements of the node table are copies of an \<open>archive_node\<close> that holds no expression and
  a default handle, that is \<open>exZERO\<close>. The text of the version message, which prints the
  three numbers, is abbreviated. The function is written in two parts: \<open>archive_read\<close>
  is the whole of \<open>operator>>\<close> and \<open>read_tables\<close> is what it does after the version
  check (the atoms, the expressions and the nodes).
\<close>

definition read_tables :: "ex \<Rightarrow> byte list \<Rightarrow> archive \<Rightarrow> (archive \<times> byte list) result" where
  "read_tables exZERO is5 ar =
     on_success (read_unsigned is5) (\<lambda>(num_atoms, is6).
     on_success (read_atoms (unat num_atoms) is6) (\<lambda>(strs, is7).
     on_success (read_unsigned is7) (\<lambda>(num_exprs, is8).
     on_success (read_exprs (unat num_exprs) is8) (\<lambda>(aes, is9).
     on_success (read_unsigned is9) (\<lambda>(num_nodes, is10).
     on_success
       (read_nodes
          (resize (nodes ar) (unat num_nodes)
             \<lparr>props = [], has_expression = False, node_e = \<lparr>bp = bp exZERO\<rparr>\<rparr>) is10)
       (\<lambda>(ns, is11). Inr (\<lparr>atoms = strs, exprs = aes, nodes = ns\<rparr>, is11)))))))"

definition archive_read :: "u32 \<Rightarrow> u32 \<Rightarrow> ex \<Rightarrow> byte list \<Rightarrow> archive \<Rightarrow> (archive \<times> byte list) result" where
  "archive_read ARCHIVE_VERSION ARCHIVE_AGE exZERO is ar =
     on_success (get is) (\<lambda>(c1, is1).
     on_success (get is1) (\<lambda>(c2, is2).
     on_success (get is2) (\<lambda>(c3, is3).
     on_success (get is3) (\<lambda>(c4, is4).
     if c1 \<noteq> 0x47 \<or> c2 \<noteq> 0x41 \<or> c3 \<noteq> 0x52 \<or> c4 \<noteq> 0x43
     then Inl (Runtime_error ''not a GiNaC archive (signature not found)'')
     else
     on_success (read_unsigned is4) (\<lambda>(version, is5).
     if version > ARCHIVE_VERSION \<or> version < ARCHIVE_VERSION - ARCHIVE_AGE
     then Inl (Runtime_error ''archive version cannot be read by this GiNaC library'')
     else read_tables exZERO is5 ar)))))"

section \<open>Matrices (matrix.cpp)\<close>

text \<open>
  A matrix stores its \<open>row * col\<close> entries row by row in the vector \<open>m\<close>, here the field
  \<open>mvec\<close>. The type of the entries is a parameter of the record: the functions that only
  move entries around are independent of it. \<open>std::vector::operator[]\<close> outside the
  vector is \<open>Undefined\<close>.
\<close>

record 'e matrix =
  row :: int
  col :: int
  mvec :: "'e list"

definition vec_at :: "'a list \<Rightarrow> int \<Rightarrow> 'a result" where
  "vec_at v i =
     (if 0 \<le> i \<and> nat i < length v then Inr (v ! nat i)
      else Inl (Undefined ''vector subscript out of range''))"

definition vec_set :: "'a list \<Rightarrow> int \<Rightarrow> 'a \<Rightarrow> 'a list result" where
  "vec_set v i x =
     (if 0 \<le> i \<and> nat i < length v then Inr (v[nat i := x])
      else Inl (Undefined ''vector subscript out of range''))"

text \<open>\<open>matrix::operator()(int ro, int co)\<close>.\<close>

definition matrix_call :: "'e matrix \<Rightarrow> int \<Rightarrow> int \<Rightarrow> 'e result" where
  "matrix_call M ro co =
     (if ro < 0 \<or> ro \<ge> row M \<or> co < 0 \<or> co \<ge> col M
      then Inl (Range_error ''matrix::operator(): index out of range'')
      else vec_at (mvec M) (ro * col M + co))"

text \<open>
  \<open>matrix::eval(int level)\<close>. The flag \<open>status_flags::evaluated\<close> of the node is the
  argument \<open>evaluated\<close>, and the result carries the flag of the returned node. The constant
  \<open>max_recursion_level\<close> is declared outside the sources and is a parameter; \<open>ex::eval\<close>
  dispatches to the node of the entry and is the parameter \<open>eval_ex\<close>. The vector \<open>m2\<close>
  starts as \<open>row * col\<close> default handles. The two nested loops visit the index
  \<open>r * col + c\<close> for \<open>r\<close> from 0 below \<open>row\<close> and \<open>c\<close> from 0 below \<open>col\<close>.
\<close>

definition matrix_indices :: "'e matrix \<Rightarrow> int list" where
  "matrix_indices M =
     concat (map (\<lambda>r. map (\<lambda>c. r * col M + c) [0 .. col M - 1]) [0 .. row M - 1])"

fun matrix_eval_loop :: "('e \<Rightarrow> int \<Rightarrow> 'e result) \<Rightarrow> 'e list \<Rightarrow> int \<Rightarrow> int list \<Rightarrow> 'e list
    \<Rightarrow> 'e list result" where
  "matrix_eval_loop eval_ex v level [] m2 = Inr m2"
| "matrix_eval_loop eval_ex v level (i # rest) m2 =
     on_success (vec_at v i) (\<lambda>x.
     on_success (eval_ex x level) (\<lambda>y.
     on_success (vec_set m2 i y) (\<lambda>m2'.
     matrix_eval_loop eval_ex v level rest m2')))"

definition matrix_eval :: "nat \<Rightarrow> ('e \<Rightarrow> int \<Rightarrow> 'e result) \<Rightarrow> 'e \<Rightarrow> 'e matrix \<Rightarrow> bool \<Rightarrow> int
    \<Rightarrow> ('e matrix \<times> bool) result" where
  "matrix_eval max_recursion_level eval_ex exZERO M evaluated level =
     (if level = 1 \<and> evaluated then Inr (M, evaluated)
      else if level = - int max_recursion_level
      then Inl (Runtime_error ''matrix::eval(): recursion limit exceeded'')
      else on_success
             (matrix_eval_loop eval_ex (mvec M) (level - 1) (matrix_indices M)
                (replicate (nat (row M * col M)) exZERO))
             (\<lambda>m2. Inr (\<lparr>row = row M, col = col M, mvec = m2\<rparr>, True)))"

section \<open>Containers lst and exprseq (container.pl)\<close>

text \<open>
  The script generates the classes \<open>lst\<close> and \<open>exprseq\<close> from one text; the functions below
  are the same for both. A container holds the sequence \<open>seq\<close> of handles. The member
  functions of \<open>ex\<close> that dispatch to the node of a child (\<open>eval\<close>, \<open>evalf\<close>, \<open>normal\<close>,
  \<open>subs\<close>) are parameters and may throw. A function that returns either \<open>*this\<close> or a
  container built from a new sequence returns a \<open>container_ret\<close>.
\<close>

datatype container_ret = Return_this | Return_new "ex list"

text \<open>The loops \<open>for (it = seq.begin(); it != seq.end(); ++it) s.push_back(f(*it))\<close>.\<close>

fun push_back_each :: "('a \<Rightarrow> 'b result) \<Rightarrow> 'a list \<Rightarrow> 'b list \<Rightarrow> 'b list result" where
  "push_back_each f [] s = Inr s"
| "push_back_each f (x # rest) s = on_success (f x) (\<lambda>y. push_back_each f rest (s @ [y]))"

definition evalchildren :: "nat \<Rightarrow> (ex \<Rightarrow> int \<Rightarrow> ex result) \<Rightarrow> ex list \<Rightarrow> int \<Rightarrow> ex list result" where
  "evalchildren max_recursion_level eval_ex seq level =
     (if level = 1 then Inr seq
      else if level = - int max_recursion_level
      then Inl (Runtime_error ''max recursion level reached'')
      else push_back_each (\<lambda>it. eval_ex it (level - 1)) seq [])"

definition evalfchildren :: "nat \<Rightarrow> (ex \<Rightarrow> int \<Rightarrow> ex result) \<Rightarrow> ex list \<Rightarrow> int \<Rightarrow> ex list result" where
  "evalfchildren max_recursion_level evalf_ex seq level =
     (if level = 1 then Inr seq
      else if level = - int max_recursion_level
      then Inl (Runtime_error ''max recursion level reached'')
      else push_back_each (\<lambda>it. evalf_ex it (level - 1)) seq [])"

definition normalchildren :: "nat \<Rightarrow> (ex \<Rightarrow> int \<Rightarrow> ex result) \<Rightarrow> ex list \<Rightarrow> int \<Rightarrow> ex list result" where
  "normalchildren max_recursion_level normal_ex seq level =
     (if level = 1 then Inr seq
      else if level = - int max_recursion_level
      then Inl (Runtime_error ''max recursion level reached'')
      else push_back_each (\<lambda>it. normal_ex it (level - 1)) seq [])"

text \<open>\<open>eval\<close> and \<open>evalf\<close> of the container; \<open>this->hold()\<close> returns \<open>*this\<close>.\<close>

definition container_eval :: "nat \<Rightarrow> (ex \<Rightarrow> int \<Rightarrow> ex result) \<Rightarrow> ex list \<Rightarrow> int \<Rightarrow> container_ret result" where
  "container_eval max_recursion_level eval_ex seq level =
     (if level = 1 then Inr Return_this
      else on_success (evalchildren max_recursion_level eval_ex seq level)
             (\<lambda>s. Inr (Return_new s)))"

definition container_evalf :: "nat \<Rightarrow> (ex \<Rightarrow> int \<Rightarrow> ex result) \<Rightarrow> ex list \<Rightarrow> int \<Rightarrow> container_ret result" where
  "container_evalf max_recursion_level evalf_ex seq level =
     on_success (evalfchildren max_recursion_level evalf_ex seq level)
       (\<lambda>s. Inr (Return_new s))"

text \<open>
  \<open>subschildren\<close> returns a null pointer (\<open>None\<close>) when no child changed. The test
  \<open>are_ex_trivially_equal\<close> is declared outside the sources and is a parameter, as is
  \<open>ex::subs\<close>, which receives the two lists unchanged. The loop variable \<open>cit\<close> splits
  \<open>seq\<close> into the children already found unchanged and the remaining ones.
\<close>

fun subschildren_loop :: "(ex \<Rightarrow> ex \<Rightarrow> bool) \<Rightarrow> (ex \<Rightarrow> ex result) \<Rightarrow> ex list \<Rightarrow> ex list
    \<Rightarrow> ex list option result" where
  "subschildren_loop are_ex_trivially_equal subs_ex before [] = Inr None"
| "subschildren_loop are_ex_trivially_equal subs_ex before (cit # rest) =
     on_success (subs_ex cit) (\<lambda>subsed_ex.
       if \<not> are_ex_trivially_equal cit subsed_ex
       then on_success (push_back_each subs_ex rest (before @ [subsed_ex])) (\<lambda>s. Inr (Some s))
       else subschildren_loop are_ex_trivially_equal subs_ex (before @ [cit]) rest)"

definition subschildren :: "(ex \<Rightarrow> ex \<Rightarrow> bool) \<Rightarrow> (ex list \<Rightarrow> ex list \<Rightarrow> ex \<Rightarrow> ex result) \<Rightarrow> ex list
    \<Rightarrow> ex list \<Rightarrow> ex list \<Rightarrow> ex list option result" where
  "subschildren are_ex_trivially_equal subs_ex seq ls lr =
     subschildren_loop are_ex_trivially_equal (subs_ex ls lr) [] seq"

definition container_subs :: "(ex \<Rightarrow> ex \<Rightarrow> bool) \<Rightarrow> (ex list \<Rightarrow> ex list \<Rightarrow> ex \<Rightarrow> ex result) \<Rightarrow> ex list
    \<Rightarrow> ex list \<Rightarrow> ex list \<Rightarrow> container_ret result" where
  "container_subs are_ex_trivially_equal subs_ex seq ls lr =
     on_success (subschildren are_ex_trivially_equal subs_ex seq ls lr)
       (\<lambda>vp. case vp of None \<Rightarrow> Inr Return_this | Some v \<Rightarrow> Inr (Return_new v))"

section \<open>Default output (print.cpp)\<close>

text \<open>
  A print function returns the text it writes to the stream. The type \<open>'e\<close> of the
  children is a parameter: \<open>ex::print(os, upper_precedence)\<close> dispatches to the node of
  the child and is the parameter \<open>print_ex\<close>, and \<open>os << x\<close> for a handle \<open>x\<close> is
  \<open>print_ex x 0\<close>, the default argument of \<open>ex::print\<close>. The static members \<open>precedence\<close>
  of the classes are defined outside print.cpp and are parameters. The comparisons of a
  coefficient with an integer literal (\<open>coeff > 0\<close>, \<open>coeff == -1\<close>, \<open>coeff != 1\<close>) build a
  relational and convert it to \<open>bool\<close>; they are the parameters \<open>ex_gt\<close>, \<open>ex_eq\<close> and
  \<open>ex_ne\<close>.
\<close>

record 'e expair =
  rest :: 'e
  coeff :: 'e

definition power_print :: "nat \<Rightarrow> ('e \<Rightarrow> nat \<Rightarrow> string) \<Rightarrow> 'e \<Rightarrow> 'e \<Rightarrow> nat \<Rightarrow> string" where
  "power_print precedence print_ex basis exponent upper_precedence =
     (if precedence \<le> upper_precedence then ''('' else [])
     @ print_ex basis precedence
     @ ''^''
     @ print_ex exponent precedence
     @ (if precedence \<le> upper_precedence then '')'' else [])"

definition expairseq_printpair :: "nat \<Rightarrow> ('e \<Rightarrow> nat \<Rightarrow> string) \<Rightarrow> 'e expair \<Rightarrow> nat \<Rightarrow> string" where
  "expairseq_printpair precedence print_ex p upper_precedence =
     ''[['' @ print_ex (rest p) precedence @ '','' @ print_ex (coeff p) precedence @ '']]''"

text \<open>
  \<open>expairseq::printseq\<close> calls the virtual \<open>printpair\<close>, a parameter. The function
  decrements the end iterator of \<open>seq\<close> before anything else, which is \<open>Undefined\<close> for an
  empty sequence. The loop prints every pair but the last, each followed by the
  delimiter.
\<close>

fun printseq_loop :: "('e expair \<Rightarrow> nat \<Rightarrow> string) \<Rightarrow> char \<Rightarrow> nat \<Rightarrow> 'e expair list \<Rightarrow> string" where
  "printseq_loop printpair delim this_precedence [] = []"
| "printseq_loop printpair delim this_precedence [it_last] = []"
| "printseq_loop printpair delim this_precedence (it # its) =
     printpair it this_precedence @ [delim] @ printseq_loop printpair delim this_precedence its"

definition expairseq_printseq :: "('e expair \<Rightarrow> nat \<Rightarrow> string) \<Rightarrow> ('e \<Rightarrow> 'e \<Rightarrow> bool)
    \<Rightarrow> ('e \<Rightarrow> nat \<Rightarrow> string) \<Rightarrow> 'e \<Rightarrow> 'e expair list \<Rightarrow> 'e \<Rightarrow> char \<Rightarrow> nat \<Rightarrow> nat \<Rightarrow> string result" where
  "expairseq_printseq printpair is_equal print_ex default_overall_coeff seq overall_coeff
       delim this_precedence upper_precedence =
     (if seq = [] then Inl (Undefined ''decrement of the begin iterator'')
      else Inr (
        (if this_precedence \<le> upper_precedence then ''('' else [])
        @ printseq_loop printpair delim this_precedence seq
        @ printpair (last seq) this_precedence
        @ (if \<not> is_equal overall_coeff default_overall_coeff
           then [delim] @ print_ex overall_coeff 0 else [])
        @ (if this_precedence \<le> upper_precedence then '')'' else [])))"

definition expairseq_print :: "nat \<Rightarrow> ('e expair \<Rightarrow> nat \<Rightarrow> string) \<Rightarrow> ('e \<Rightarrow> 'e \<Rightarrow> bool)
    \<Rightarrow> ('e \<Rightarrow> nat \<Rightarrow> string) \<Rightarrow> 'e \<Rightarrow> 'e expair list \<Rightarrow> 'e \<Rightarrow> nat \<Rightarrow> string result" where
  "expairseq_print precedence printpair is_equal print_ex default_overall_coeff seq overall_coeff
       upper_precedence =
     on_success
       (expairseq_printseq printpair is_equal print_ex default_overall_coeff seq overall_coeff
          (CHR '','') precedence upper_precedence)
       (\<lambda>txt. Inr (''[['' @ txt @ '']]''))"

definition add_printpair :: "('e \<Rightarrow> int \<Rightarrow> bool) \<Rightarrow> ('e \<Rightarrow> int \<Rightarrow> bool) \<Rightarrow> ('e \<Rightarrow> nat \<Rightarrow> string)
    \<Rightarrow> 'e expair \<Rightarrow> nat \<Rightarrow> string" where
  "add_printpair ex_eq ex_ne print_ex p upper_precedence =
     ''(''
     @ (if ex_eq (coeff p) (- 1) then ''-''
        else if ex_ne (coeff p) 1 then print_ex (coeff p) 0 @ ''*'' else [])
     @ print_ex (rest p) 0
     @ '')''"

fun add_print_loop :: "nat \<Rightarrow> ('e \<Rightarrow> int \<Rightarrow> bool) \<Rightarrow> ('e \<Rightarrow> int \<Rightarrow> bool) \<Rightarrow> ('e \<Rightarrow> int \<Rightarrow> bool)
    \<Rightarrow> ('e \<Rightarrow> nat \<Rightarrow> string) \<Rightarrow> 'e expair list \<Rightarrow> bool \<Rightarrow> string" where
  "add_print_loop precedence ex_gt ex_eq ex_ne print_ex [] first = []"
| "add_print_loop precedence ex_gt ex_eq ex_ne print_ex (cit # cits) first =
     (if \<not> first then (if ex_gt (coeff cit) 0 then ''+'' else []) else [])
     @ (if ex_eq (coeff cit) (- 1) then ''-''
        else if ex_ne (coeff cit) 1 then print_ex (coeff cit) precedence @ ''*'' else [])
     @ print_ex (rest cit) 0
     @ add_print_loop precedence ex_gt ex_eq ex_ne print_ex cits False"

definition add_print :: "nat \<Rightarrow> ('e \<Rightarrow> int \<Rightarrow> bool) \<Rightarrow> ('e \<Rightarrow> int \<Rightarrow> bool) \<Rightarrow> ('e \<Rightarrow> int \<Rightarrow> bool)
    \<Rightarrow> ('e \<Rightarrow> bool) \<Rightarrow> ('e \<Rightarrow> nat \<Rightarrow> string) \<Rightarrow> 'e expair list \<Rightarrow> 'e \<Rightarrow> nat \<Rightarrow> string" where
  "add_print precedence ex_gt ex_eq ex_ne ex_is_zero print_ex seq overall_coeff upper_precedence =
     (if precedence \<le> upper_precedence then ''('' else [])
     @ add_print_loop precedence ex_gt ex_eq ex_ne print_ex seq True
     @ (if \<not> ex_is_zero overall_coeff
        then (if ex_gt overall_coeff 0 then ''+'' else []) @ print_ex overall_coeff 0
        else [])
     @ (if precedence \<le> upper_precedence then '')'' else [])"

text \<open>
  \<open>mul::printpair\<close> prints the rest, or the power made of the pair, with the precedence it
  was given. Constructing \<open>power(p.rest, p.coeff)\<close> and taking a handle of it is the
  parameter \<open>mk_power\<close>; \<open>p.coeff.compare(exONE()) == 0\<close> is the parameter \<open>is_one\<close>, which
  also stands for \<open>overall_coeff.is_equal(exONE())\<close> in \<open>mul::print\<close>. \<open>mul::print\<close> calls
  the virtual \<open>recombine_pair_to_ex\<close>, a parameter.
\<close>

definition mul_printpair :: "('e \<Rightarrow> bool) \<Rightarrow> ('e \<Rightarrow> 'e \<Rightarrow> 'e) \<Rightarrow> ('e \<Rightarrow> nat \<Rightarrow> string)
    \<Rightarrow> 'e expair \<Rightarrow> nat \<Rightarrow> string" where
  "mul_printpair is_one mk_power print_ex p upper_precedence =
     ''(''
     @ (if is_one (coeff p) then print_ex (rest p) upper_precedence
        else print_ex (mk_power (rest p) (coeff p)) upper_precedence)
     @ '')''"

fun mul_print_loop :: "nat \<Rightarrow> ('e expair \<Rightarrow> 'e) \<Rightarrow> ('e \<Rightarrow> nat \<Rightarrow> string) \<Rightarrow> 'e expair list \<Rightarrow> bool
    \<Rightarrow> string" where
  "mul_print_loop precedence recombine_pair_to_ex print_ex [] first = []"
| "mul_print_loop precedence recombine_pair_to_ex print_ex (cit # cits) first =
     (if \<not> first then ''*'' else [])
     @ print_ex (recombine_pair_to_ex cit) precedence
     @ mul_print_loop precedence recombine_pair_to_ex print_ex cits False"

definition mul_print :: "nat \<Rightarrow> ('e \<Rightarrow> bool) \<Rightarrow> ('e expair \<Rightarrow> 'e) \<Rightarrow> ('e \<Rightarrow> nat \<Rightarrow> string)
    \<Rightarrow> 'e expair list \<Rightarrow> 'e \<Rightarrow> nat \<Rightarrow> string" where
  "mul_print precedence is_one recombine_pair_to_ex print_ex seq overall_coeff upper_precedence =
     (if precedence \<le> upper_precedence then ''('' else [])
     @ (if \<not> is_one overall_coeff then print_ex overall_coeff precedence else [])
     @ mul_print_loop precedence recombine_pair_to_ex print_ex seq (is_one overall_coeff)
     @ (if precedence \<le> upper_precedence then '')'' else [])"

text \<open>
  The enumeration \<open>relational::operators\<close>; a value outside the six enumerators takes the
  default branch of the switch.
\<close>

datatype operators =
    op_equal | op_not_equal | op_less | op_less_or_equal | op_greater | op_greater_or_equal
  | op_invalid

fun operator_text :: "operators \<Rightarrow> string" where
  "operator_text op_equal = ''==''"
| "operator_text op_not_equal = ''!=''"
| "operator_text op_less = ''<''"
| "operator_text op_less_or_equal = ''<=''"
| "operator_text op_greater = ''>''"
| "operator_text op_greater_or_equal = ''>=''"
| "operator_text op_invalid = ''(INVALID RELATIONAL OPERATOR)''"

definition relational_print :: "nat \<Rightarrow> ('e \<Rightarrow> nat \<Rightarrow> string) \<Rightarrow> 'e \<Rightarrow> operators \<Rightarrow> 'e \<Rightarrow> nat \<Rightarrow> string" where
  "relational_print precedence print_ex lh o_op rh upper_precedence =
     (if precedence \<le> upper_precedence then ''('' else [])
     @ print_ex lh precedence
     @ operator_text o_op
     @ print_ex rh precedence
     @ (if precedence \<le> upper_precedence then '')'' else [])"

section \<open>Expressions as values\<close>

text \<open>
  The matrix algorithms and \<open>lsolve\<close> compute with the expressions their handles denote.
  The classes of these expressions (numeric, symbol, add, mul, power, relational, lst)
  are defined outside the sources; \<open>expr\<close> is the part of the node kinds of the
  specification (section 3) that these functions meet. A symbol is its serial number and
  a numeric is an exact rational.
\<close>

datatype expr =
    Numeric rat
  | Symbol nat
  | Add expr expr
  | Mul expr expr
  | Power expr expr
  | Relational expr operators expr
  | Lst "expr list"

text \<open>
  Modelled from the spec: the structural queries \<open>info\<close>, \<open>nops\<close>, \<open>op\<close> and \<open>has\<close> of
  section 4.1 (\<open>info\<close> for the four flags that \<open>lsolve\<close> and \<open>matrix::determinant\<close> test),
  whose definitions in ex.cpp and basic.cpp are missing from the sources. \<open>op\<close> of a list
  is \<open>lst::let_op\<close> of container.pl, which walks \<open>i\<close> steps from the first element without
  a check that holds in a release build: outside the list it is \<open>Undefined\<close>. For the
  other kinds an index out of bounds is the \<open>range_error\<close> of section 7.
\<close>

datatype info_flags = info_numeric | info_symbol | info_list | info_relation_equal

fun info :: "expr \<Rightarrow> info_flags \<Rightarrow> bool" where
  "info (Numeric c) info_numeric = True"
| "info (Symbol s) info_symbol = True"
| "info (Lst xs) info_list = True"
| "info (Relational l op_equal r) info_relation_equal = True"
| "info x flag = False"

fun nops :: "expr \<Rightarrow> nat" where
  "nops (Numeric c) = 0"
| "nops (Symbol s) = 0"
| "nops (Add a b) = 2"
| "nops (Mul a b) = 2"
| "nops (Power a b) = 2"
| "nops (Relational l o_op r) = 2"
| "nops (Lst xs) = length xs"

definition op2 :: "expr \<Rightarrow> expr \<Rightarrow> nat \<Rightarrow> expr result" where
  "op2 a b i =
     (if i = 0 then Inr a else if i = 1 then Inr b
      else Inl (Range_error ''op(): index out of range''))"

fun op :: "expr \<Rightarrow> nat \<Rightarrow> expr result" where
  "op (Numeric c) i = Inl (Range_error ''op(): index out of range'')"
| "op (Symbol s) i = Inl (Range_error ''op(): index out of range'')"
| "op (Add a b) i = op2 a b i"
| "op (Mul a b) i = op2 a b i"
| "op (Power a b) i = op2 a b i"
| "op (Relational l o_op r) i = op2 l r i"
| "op (Lst xs) i =
     (if i < length xs then Inr (xs ! i) else Inl (Undefined ''let_op past the end of the list''))"

fun has :: "expr \<Rightarrow> expr \<Rightarrow> bool" where
  "has (Numeric c) other = (Numeric c = other)"
| "has (Symbol s) other = (Symbol s = other)"
| "has (Add a b) other = (Add a b = other \<or> has a other \<or> has b other)"
| "has (Mul a b) other = (Mul a b = other \<or> has a other \<or> has b other)"
| "has (Power a b) other = (Power a b = other \<or> has a other \<or> has b other)"
| "has (Relational l o_op r) other =
     (Relational l o_op r = other \<or> has l other \<or> has r other)"
| "has (Lst xs) other = (Lst xs = other \<or> list_ex (\<lambda>x. has x other) xs)"

text \<open>
  \<open>ex::is_zero\<close> and \<open>ex::is_equal\<close> compare the structure of two expressions; on values
  they are equality, \<open>exZERO()\<close> being the numeric 0.
\<close>

definition is_zero_expr :: "expr \<Rightarrow> bool" where
  "is_zero_expr x = (x = Numeric 0)"

definition is_equal :: "expr \<Rightarrow> expr \<Rightarrow> bool" where
  "is_equal x y = (x = y)"

text \<open>
  The arithmetic of handles (\<open>operator+\<close>, \<open>operator-\<close>, \<open>operator*\<close>, \<open>operator/\<close>, unary
  minus) and the rewrites \<open>normal\<close>, \<open>expand\<close> and \<open>coeff\<close> are declared in operators.h and
  ex.h and defined outside the sources. The functions of matrix.cpp and \<open>lsolve\<close> take
  them as the fields of a record, so that what is proved of these functions holds for
  every implementation of the arithmetic. Division and \<open>normal\<close> may throw.
\<close>

record ex_ops =
  ex_add :: "expr \<Rightarrow> expr \<Rightarrow> expr"
  ex_sub :: "expr \<Rightarrow> expr \<Rightarrow> expr"
  ex_mul :: "expr \<Rightarrow> expr \<Rightarrow> expr"
  ex_div :: "expr \<Rightarrow> expr \<Rightarrow> expr result"
  ex_neg :: "expr \<Rightarrow> expr"
  ex_normal :: "expr \<Rightarrow> expr result"
  ex_expand :: "expr \<Rightarrow> expr"
  ex_coeff :: "expr \<Rightarrow> expr \<Rightarrow> int \<Rightarrow> expr"

subsection \<open>A model of the arithmetic on polynomials\<close>

text \<open>
  Modelled from the spec: the operators of section 4.1 with the numeric folding and the
  canonical collapse of sections 3 and 8 (\<open>x + 0\<close> is \<open>x\<close>, \<open>x * 1\<close> is \<open>x\<close>, \<open>x * 0\<close> is 0,
  two numerics combine), and \<open>normal\<close> of section 4.4 on polynomials with rational
  coefficients, where equivalent expressions have the same normal form. The operators
  fold numerics and the neutral elements and nothing more: they do not flatten or order
  the operands of a sum or product as the canonicalizing constructors of section 4.2 do,
  so \<open>x + y\<close> and \<open>y + x\<close> are different trees here and only \<open>normal\<close> gives a canonical
  form; what is proved with this model compares results through \<open>normal\<close> or on numerics.
  A polynomial is
  expanded into its list of terms, a coefficient with the list of the symbols of the
  monomial; the canonical form sorts the symbols of each monomial, adds the coefficients
  of equal monomials, drops the monomials with coefficient 0 and orders the rest. The
  reduction of a quotient of polynomials to lowest terms is not modelled: \<open>normal\<close> and
  \<open>expand\<close> return an expression that is not a polynomial as it is and \<open>coeff\<close> returns 0
  for it, and the theorems that use this model apply it to polynomials only. The exception of a
  division by the numeric 0 is the \<open>arithmetic_error\<close> of section 7; whether its class
  derives from \<open>runtime_error\<close> is not fixed by the sources, and no theorem depends on it.
\<close>

type_synonym terms = "(rat \<times> nat list) list"

fun terms_of :: "expr \<Rightarrow> terms option" where
  "terms_of (Numeric c) = Some [(c, [])]"
| "terms_of (Symbol s) = Some [(1, [s])]"
| "terms_of (Add a b) =
     (case terms_of a of None \<Rightarrow> None
      | Some ta \<Rightarrow> (case terms_of b of None \<Rightarrow> None | Some tb \<Rightarrow> Some (ta @ tb)))"
| "terms_of (Mul a b) =
     (case terms_of a of None \<Rightarrow> None
      | Some ta \<Rightarrow>
          (case terms_of b of None \<Rightarrow> None
           | Some tb \<Rightarrow>
               Some (concat (map (\<lambda>(c, m). map (\<lambda>(d, n). (c * d, m @ n)) tb) ta))))"
| "terms_of x = None"

definition sorted_symbols :: "nat list \<Rightarrow> nat list" where
  "sorted_symbols n = sort n"

definition coefficient :: "terms \<Rightarrow> nat list \<Rightarrow> rat" where
  "coefficient ts m = sum_list (map (\<lambda>(c, n). if sorted_symbols n = m then c else 0) ts)"

definition canonical :: "terms \<Rightarrow> terms" where
  "canonical ts =
     filter (\<lambda>(c, m). c \<noteq> 0)
       (map (\<lambda>m. (coefficient ts m, m))
          (sort (remdups (map (\<lambda>(c, n). sorted_symbols n) ts))))"

fun monomial_expr :: "nat list \<Rightarrow> expr" where
  "monomial_expr [] = Numeric 1"
| "monomial_expr [s] = Symbol s"
| "monomial_expr (s # ss) = Mul (Symbol s) (monomial_expr ss)"

definition term_expr :: "rat \<times> nat list \<Rightarrow> expr" where
  "term_expr t =
     (case t of (c, m) \<Rightarrow>
        if m = [] then Numeric c
        else if c = 1 then monomial_expr m
        else Mul (Numeric c) (monomial_expr m))"

fun terms_expr :: "terms \<Rightarrow> expr" where
  "terms_expr [] = Numeric 0"
| "terms_expr [t] = term_expr t"
| "terms_expr (t # ts) = Add (term_expr t) (terms_expr ts)"

definition normal :: "expr \<Rightarrow> expr" where
  "normal x = (case terms_of x of None \<Rightarrow> x | Some ts \<Rightarrow> terms_expr (canonical ts))"

definition poly_add :: "expr \<Rightarrow> expr \<Rightarrow> expr" where
  "poly_add a b =
     (case (a, b) of
        (Numeric x, Numeric y) \<Rightarrow> Numeric (x + y)
      | _ \<Rightarrow> if a = Numeric 0 then b else if b = Numeric 0 then a else Add a b)"

definition poly_mul :: "expr \<Rightarrow> expr \<Rightarrow> expr" where
  "poly_mul a b =
     (case (a, b) of
        (Numeric x, Numeric y) \<Rightarrow> Numeric (x * y)
      | _ \<Rightarrow> if a = Numeric 0 \<or> b = Numeric 0 then Numeric 0
             else if a = Numeric 1 then b else if b = Numeric 1 then a else Mul a b)"

definition poly_neg :: "expr \<Rightarrow> expr" where
  "poly_neg a = poly_mul (Numeric (- 1)) a"

definition poly_sub :: "expr \<Rightarrow> expr \<Rightarrow> expr" where
  "poly_sub a b = poly_add a (poly_neg b)"

definition poly_div :: "expr \<Rightarrow> expr \<Rightarrow> expr result" where
  "poly_div a b =
     (case b of
        Numeric y \<Rightarrow>
          if y = 0 then Inl (Arithmetic_error ''division by zero'')
          else Inr (poly_mul a (Numeric (1 / y)))
      | _ \<Rightarrow> Inr (poly_mul a (Power b (Numeric (- 1)))))"

definition poly_coeff :: "expr \<Rightarrow> expr \<Rightarrow> int \<Rightarrow> expr" where
  "poly_coeff x s k =
     (case (terms_of x, s) of
        (Some ts, Symbol v) \<Rightarrow>
          terms_expr (canonical
            (map (\<lambda>(c, m). (c, removeAll v m))
               (filter (\<lambda>(c, m). int (count_list m v) = k) ts)))
      | _ \<Rightarrow> Numeric 0)"

definition poly_ops :: ex_ops where
  "poly_ops =
     \<lparr>ex_add = poly_add, ex_sub = poly_sub, ex_mul = poly_mul, ex_div = poly_div,
      ex_neg = poly_neg, ex_normal = (\<lambda>x. Inr (normal x)), ex_expand = normal,
      ex_coeff = poly_coeff\<rparr>"

section \<open>Determinants (matrix.cpp)\<close>

text \<open>
  The constructor \<open>matrix(r, c)\<close> makes a matrix of \<open>r * c\<close> zeros, and \<open>matrix::set\<close>
  checks the position as \<open>operator()\<close> does. (\<open>ensure_if_modifiable\<close> concerns nodes that
  a handle shares; the matrices these functions change are their own local copies.)
\<close>

definition matrix_new :: "int \<Rightarrow> int \<Rightarrow> expr matrix" where
  "matrix_new r c = \<lparr>row = r, col = c, mvec = replicate (nat (r * c)) (Numeric 0)\<rparr>"

definition matrix_set :: "'e matrix \<Rightarrow> int \<Rightarrow> int \<Rightarrow> 'e \<Rightarrow> 'e matrix result" where
  "matrix_set M ro co v =
     (if ro < 0 \<or> ro \<ge> row M \<or> co < 0 \<or> co \<ge> col M
      then Inl (Range_error ''matrix::set(): index out of range'')
      else on_success (vec_set (mvec M) (ro * col M + co) v) (\<lambda>m'. Inr (M\<lparr>mvec := m'\<rparr>)))"

text \<open>
  \<open>permutation_sign\<close> on its own copy of the vector: the inner loop over \<open>j\<close> and the outer
  loop over \<open>i\<close>; \<open>None\<close> is the \<open>return 0\<close> inside the loops.
\<close>

fun permutation_sign_inner :: "int list \<Rightarrow> nat \<Rightarrow> nat list \<Rightarrow> int \<Rightarrow> (int list \<times> int) option" where
  "permutation_sign_inner s i [] sigma = Some (s, sigma)"
| "permutation_sign_inner s i (j # js) sigma =
     (if s ! i = s ! j then None
      else if s ! i > s ! j
      then permutation_sign_inner (s[i := s ! j, j := s ! i]) i js (- sigma)
      else permutation_sign_inner s i js sigma)"

fun permutation_sign_outer :: "int list \<Rightarrow> nat list \<Rightarrow> int \<Rightarrow> (int list \<times> int) option" where
  "permutation_sign_outer s [] sigma = Some (s, sigma)"
| "permutation_sign_outer s (i # is) sigma =
     (case permutation_sign_inner s i [i + 1 ..< length s] sigma of
        None \<Rightarrow> None
      | Some (s', sigma') \<Rightarrow> permutation_sign_outer s' is sigma')"

definition permutation_sign :: "int list \<Rightarrow> int" where
  "permutation_sign s =
     (if length s < 2 then 0
      else case permutation_sign_outer s [0 ..< length s - 1] 1 of
             None \<Rightarrow> 0
           | Some (s', sigma) \<Rightarrow> sigma)"

text \<open>
  \<open>std::next_permutation\<close> of the C++ library: with \<open>i\<close> the last position whose element
  is less than its successor and \<open>j\<close> the last position after \<open>i\<close> whose element is greater
  than that at \<open>i\<close>, the two elements are exchanged and the part after \<open>i\<close> is reversed;
  when there is no such \<open>i\<close> the whole range is reversed and the result is \<open>false\<close>.
\<close>

definition next_permutation :: "int list \<Rightarrow> bool \<times> int list" where
  "next_permutation s =
     (case filter (\<lambda>i. s ! i < s ! (i + 1)) [0 ..< length s - 1] of
        [] \<Rightarrow> (False, rev s)
      | i0 # is \<Rightarrow>
          (let i = last (i0 # is);
               j = last (filter (\<lambda>j. s ! i < s ! j) [i + 1 ..< length s]);
               s' = s[i := s ! j, j := s ! i]
           in (True, take (i + 1) s' @ rev (drop (i + 1) s'))))"

text \<open>
  \<open>determinant_symbolic_perm\<close>. The product of one permutation: \<open>term = M(sigma[0], 0)\<close>
  and then \<open>term *= M(sigma[i], i)\<close> for the other columns. The do-while loop runs until
  \<open>next_permutation\<close> returns \<open>false\<close>; it is a partial function, \<open>None\<close> standing for a loop
  that does not end. \<open>permutation_sign(sigma) * term\<close> converts the \<open>int\<close> to a numeric.
\<close>

fun perm_term :: "ex_ops \<Rightarrow> expr matrix \<Rightarrow> int list \<Rightarrow> int list \<Rightarrow> expr \<Rightarrow> expr result" where
  "perm_term ops M sigma [] trm = Inr trm"
| "perm_term ops M sigma (i # is) trm =
     on_success (vec_at sigma i) (\<lambda>si.
     on_success (matrix_call M si i) (\<lambda>x.
     perm_term ops M sigma is (ex_mul ops trm x)))"

partial_function (option) determinant_symbolic_perm_loop ::
    "ex_ops \<Rightarrow> expr matrix \<Rightarrow> int list \<Rightarrow> expr \<Rightarrow> expr result option" where
  "determinant_symbolic_perm_loop ops M sigma det =
     (case on_success (vec_at sigma 0) (\<lambda>s0.
           on_success (matrix_call M s0 0) (\<lambda>x.
           perm_term ops M sigma [1 .. col M - 1] x)) of
        Inl err \<Rightarrow> Some (Inl err)
      | Inr trm \<Rightarrow>
          (let det' = ex_add ops det (ex_mul ops (Numeric (of_int (permutation_sign sigma))) trm)
           in if fst (next_permutation sigma)
              then determinant_symbolic_perm_loop ops M (snd (next_permutation sigma)) det'
              else Some (Inr det')))"

declare determinant_symbolic_perm_loop.simps [code]

definition determinant_symbolic_perm :: "ex_ops \<Rightarrow> expr matrix \<Rightarrow> expr result option" where
  "determinant_symbolic_perm ops M =
     (if row M = 1 then Some (matrix_call M 0 0)
      else determinant_symbolic_perm_loop ops M [0 .. col M - 1] (Numeric 0))"

text \<open>
  \<open>determinant_symbolic_minor\<close>. In the general case the loop over \<open>r1\<close> fills every entry
  of \<open>minorM\<close> before it uses the matrix, so the model builds the minor of each \<open>r1\<close> from a
  new matrix. The counter \<open>r1\<close> starts at 0 and is a natural number.
\<close>

fun assemble_minor_loop :: "expr matrix \<Rightarrow> int \<Rightarrow> (int \<times> int) list \<Rightarrow> expr matrix \<Rightarrow> expr matrix result" where
  "assemble_minor_loop M r1 [] minorM = Inr minorM"
| "assemble_minor_loop M r1 ((r, c) # todo) minorM =
     on_success (if r < r1 then matrix_call M r (c + 1) else matrix_call M (r + 1) (c + 1)) (\<lambda>x.
     on_success (matrix_set minorM r c x) (\<lambda>minorM'.
     assemble_minor_loop M r1 todo minorM'))"

definition assemble_minor :: "expr matrix \<Rightarrow> int \<Rightarrow> expr matrix result" where
  "assemble_minor M r1 =
     assemble_minor_loop M r1
       (concat (map (\<lambda>r. map (\<lambda>c. (r, c)) [0 .. col M - 2]) [0 .. row M - 2]))
       (matrix_new (row M - 1) (col M - 1))"

lemma on_success_cong [fundef_cong]:
  "r = r' \<Longrightarrow> (\<And>x. r' = Inr x \<Longrightarrow> f x = f' x) \<Longrightarrow> on_success r f = on_success r' f'"
  by (cases r') (simp_all add: on_success_def)

function determinant_symbolic_minor :: "ex_ops \<Rightarrow> expr matrix \<Rightarrow> expr result"
  and determinant_symbolic_minor_loop :: "ex_ops \<Rightarrow> expr matrix \<Rightarrow> nat \<Rightarrow> expr \<Rightarrow> expr result"
where
  "determinant_symbolic_minor ops M =
     (if row M = 1 then matrix_call M 0 0
      else if row M = 2 then
        on_success (matrix_call M 0 0) (\<lambda>m00.
        on_success (matrix_call M 1 1) (\<lambda>m11.
        on_success (matrix_call M 1 0) (\<lambda>m10.
        on_success (matrix_call M 0 1) (\<lambda>m01.
        Inr (ex_sub ops (ex_mul ops m00 m11) (ex_mul ops m10 m01))))))
      else if row M = 3 then
        on_success (matrix_call M 2 1) (\<lambda>m21.
        on_success (matrix_call M 0 2) (\<lambda>m02.
        on_success (matrix_call M 2 2) (\<lambda>m22.
        on_success (matrix_call M 0 1) (\<lambda>m01.
        on_success (matrix_call M 1 0) (\<lambda>m10.
        on_success (matrix_call M 1 2) (\<lambda>m12.
        on_success (matrix_call M 1 1) (\<lambda>m11.
        on_success (matrix_call M 2 0) (\<lambda>m20.
        on_success (matrix_call M 0 0) (\<lambda>m00.
        Inr (ex_add ops
              (ex_add ops
                (ex_mul ops (ex_sub ops (ex_mul ops m21 m02) (ex_mul ops m22 m01)) m10)
                (ex_mul ops (ex_sub ops (ex_mul ops m12 m01) (ex_mul ops m11 m02)) m20))
              (ex_mul ops (ex_sub ops (ex_mul ops m22 m11) (ex_mul ops m21 m12)) m00)))))))))))
      else determinant_symbolic_minor_loop ops M 0 (Numeric 0))"
| "determinant_symbolic_minor_loop ops M r1 det =
     (if int r1 < row M then
        on_success (assemble_minor M (int r1)) (\<lambda>minorM.
        on_success (matrix_call M (int r1) 0) (\<lambda>x.
        on_success (determinant_symbolic_minor ops minorM) (\<lambda>d.
        determinant_symbolic_minor_loop ops M (r1 + 1)
          (if r1 mod 2 \<noteq> 0 then ex_sub ops det (ex_mul ops x d)
           else ex_add ops det (ex_mul ops x d)))))
      else Inr det)"
  by pat_completeness auto
termination
proof (relation "measures
    [\<lambda>x. case x of Inl (ops, M) \<Rightarrow> nat (row M) | Inr (ops, M, r1, det) \<Rightarrow> nat (row M),
     \<lambda>x. case x of Inl (ops, M) \<Rightarrow> 1 | Inr (ops, M, r1, det) \<Rightarrow> 0,
     \<lambda>x. case x of Inl (ops, M) \<Rightarrow> 0 | Inr (ops, M, r1, det) \<Rightarrow> nat (row M - int r1)]")
  show "wf (measures
    [\<lambda>x. case x of Inl (ops, M) \<Rightarrow> nat (row M) | Inr (ops, M, r1, det) \<Rightarrow> nat (row M),
     \<lambda>x. case x of Inl (ops, M) \<Rightarrow> 1 | Inr (ops, M, r1, det) \<Rightarrow> 0,
     \<lambda>x. case x of Inl (ops, M) \<Rightarrow> 0 | Inr (ops, M, r1, det) \<Rightarrow> nat (row M - int r1)])"
    by simp
next
  fix ops :: ex_ops and M :: "expr matrix" and r1 :: nat and minorM :: "expr matrix"
  assume lt: "int r1 < row M" and mk: "assemble_minor M (int r1) = Inr minorM"
  have keep: "assemble_minor_loop M q todo A = Inr B \<Longrightarrow> row B = row A" for q todo A B
  proof (induction todo arbitrary: A)
    case Nil
    then show ?case by simp
  next
    case (Cons rc todo)
    obtain r c where rc: "rc = (r, c)" by (cases rc)
    let ?x = "if r < q then matrix_call M r (c + 1) else matrix_call M (r + 1) (c + 1)"
    from Cons.prems rc obtain x where x: "?x = Inr x"
      by (cases ?x) (auto simp add: on_success_def)
    from Cons.prems rc x obtain A' where s: "matrix_set A r c x = Inr A'"
      and l: "assemble_minor_loop M q todo A' = Inr B"
      by (cases "matrix_set A r c x") (auto simp add: on_success_def)
    from s have "row A' = row A"
      by (cases "vec_set (mvec A) (r * col A + c) x")
        (auto simp add: matrix_set_def on_success_def split: if_splits)
    with Cons.IH[OF l] show ?case by simp
  qed
  from keep[OF mk[unfolded assemble_minor_def]] have "row minorM = row M - 1"
    by (simp add: matrix_new_def)
  with lt show "(Inl (ops, minorM), Inr (ops, M, r1, det)) \<in> measures
    [\<lambda>x. case x of Inl (ops, M) \<Rightarrow> nat (row M) | Inr (ops, M, r1, det) \<Rightarrow> nat (row M),
     \<lambda>x. case x of Inl (ops, M) \<Rightarrow> 1 | Inr (ops, M, r1, det) \<Rightarrow> 0,
     \<lambda>x. case x of Inl (ops, M) \<Rightarrow> 0 | Inr (ops, M, r1, det) \<Rightarrow> nat (row M - int r1)]"
    for det :: expr
    by simp
qed auto

declare determinant_symbolic_minor.simps [simp del]
declare determinant_symbolic_minor_loop.simps [simp del]

text \<open>
  \<open>matrix::pivot\<close> on the matrix it may change: the result is the matrix and the returned
  index. \<open>determinant_numeric\<close> works on a copy \<open>tmp\<close> and reads and writes its vector
  directly.
\<close>

fun pivot_search :: "expr matrix \<Rightarrow> int \<Rightarrow> int list \<Rightarrow> int result" where
  "pivot_search M ro [] = Inr ro"
| "pivot_search M ro (r # rs) =
     on_success (vec_at (mvec M) (r * col M + ro)) (\<lambda>x.
     if \<not> is_zero_expr x then Inr r else pivot_search M ro rs)"

fun swap_rows :: "expr matrix \<Rightarrow> int \<Rightarrow> int \<Rightarrow> int list \<Rightarrow> expr matrix result" where
  "swap_rows M k ro [] = Inr M"
| "swap_rows M k ro (c # cs) =
     on_success (vec_at (mvec M) (k * col M + c)) (\<lambda>x.
     on_success (vec_at (mvec M) (ro * col M + c)) (\<lambda>y.
     on_success (vec_set (mvec M) (k * col M + c) y) (\<lambda>m1.
     on_success (vec_set m1 (ro * col M + c) x) (\<lambda>m2.
     swap_rows (M\<lparr>mvec := m2\<rparr>) k ro cs))))"

definition pivot :: "expr matrix \<Rightarrow> int \<Rightarrow> (expr matrix \<times> int) result" where
  "pivot M ro =
     on_success (pivot_search M ro [ro .. row M - 1]) (\<lambda>k.
     on_success (vec_at (mvec M) (k * col M + ro)) (\<lambda>x.
     if is_zero_expr x then Inr (M, - 1)
     else if k \<noteq> ro then on_success (swap_rows M k ro [0 .. col M - 1]) (\<lambda>M'. Inr (M', k))
     else Inr (M, 0)))"

fun eliminate_row :: "ex_ops \<Rightarrow> expr matrix \<Rightarrow> int \<Rightarrow> int \<Rightarrow> expr \<Rightarrow> int list \<Rightarrow> expr matrix result" where
  "eliminate_row ops tmp r1 r2 piv [] = Inr tmp"
| "eliminate_row ops tmp r1 r2 piv (c # cs) =
     on_success (vec_at (mvec tmp) (r1 * col tmp + c)) (\<lambda>x.
     on_success (vec_at (mvec tmp) (r2 * col tmp + c)) (\<lambda>y.
     on_success (vec_set (mvec tmp) (r2 * col tmp + c) (ex_sub ops y (ex_mul ops piv x))) (\<lambda>m'.
     eliminate_row ops (tmp\<lparr>mvec := m'\<rparr>) r1 r2 piv cs)))"

fun eliminate_below :: "ex_ops \<Rightarrow> expr matrix \<Rightarrow> int \<Rightarrow> int list \<Rightarrow> expr matrix result" where
  "eliminate_below ops tmp r1 [] = Inr tmp"
| "eliminate_below ops tmp r1 (r2 # rs) =
     on_success (vec_at (mvec tmp) (r2 * col tmp + r1)) (\<lambda>x.
     on_success (vec_at (mvec tmp) (r1 * col tmp + r1)) (\<lambda>y.
     on_success (ex_div ops x y) (\<lambda>piv.
     on_success (eliminate_row ops tmp r1 r2 piv [r1 + 1 .. col tmp - 1]) (\<lambda>tmp'.
     eliminate_below ops tmp' r1 rs))))"

fun determinant_numeric_loop :: "ex_ops \<Rightarrow> expr matrix \<Rightarrow> int list \<Rightarrow> expr \<Rightarrow> expr result" where
  "determinant_numeric_loop ops tmp [] det = Inr det"
| "determinant_numeric_loop ops tmp (r1 # rs) det =
     on_success (pivot tmp r1) (\<lambda>(tmp1, indx).
     if indx = - 1 then Inr (Numeric 0)
     else
       on_success (vec_at (mvec tmp1) (r1 * col tmp1 + r1)) (\<lambda>x.
       on_success (eliminate_below ops tmp1 r1 [r1 + 1 .. row tmp1 - 1]) (\<lambda>tmp2.
       determinant_numeric_loop ops tmp2 rs
         (ex_mul ops (if indx \<noteq> 0 then ex_mul ops det (Numeric (- 1)) else det) x))))"

definition determinant_numeric :: "ex_ops \<Rightarrow> expr matrix \<Rightarrow> expr result" where
  "determinant_numeric ops M = determinant_numeric_loop ops M [0 .. row M - 1] (Numeric 1)"

text \<open>
  \<open>matrix::determinant\<close>: the first entry that is not numeric decides between the two
  symbolic algorithms. The result is \<open>None\<close> only if the loop of
  \<open>determinant_symbolic_perm\<close> does not end.
\<close>

definition determinant :: "ex_ops \<Rightarrow> expr matrix \<Rightarrow> bool \<Rightarrow> expr result option" where
  "determinant ops M normalized =
     (if row M \<noteq> col M then Some (Inl (Logic_error ''matrix::determinant(): matrix not square''))
      else if list_ex (\<lambda>r. \<not> info r info_numeric) (mvec M) then
        (if normalized
         then Some (on_success (determinant_symbolic_minor ops M) (ex_normal ops))
         else determinant_symbolic_perm ops M)
      else Some (determinant_numeric ops M))"

text \<open>
  The expansion of the determinant of a 3 by 3 matrix by the formula of Leibniz, the sum
  over the six permutations of the signed products of one entry from each column,
  written with the arithmetic of the library. It follows the words of section 8 of the
  specification and is what the two algorithms are compared with.
\<close>

definition leibniz3 :: "ex_ops \<Rightarrow> (nat \<Rightarrow> nat \<Rightarrow> expr) \<Rightarrow> expr" where
  "leibniz3 ops a =
     ex_add ops
       (ex_add ops
         (ex_add ops (ex_mul ops (ex_mul ops (a 0 0) (a 1 1)) (a 2 2))
                     (ex_mul ops (ex_mul ops (a 1 0) (a 2 1)) (a 0 2)))
         (ex_mul ops (ex_mul ops (a 2 0) (a 0 1)) (a 1 2)))
       (ex_neg ops
         (ex_add ops
           (ex_add ops (ex_mul ops (ex_mul ops (a 2 0) (a 1 1)) (a 0 2))
                       (ex_mul ops (ex_mul ops (a 1 0) (a 0 1)) (a 2 2)))
           (ex_mul ops (ex_mul ops (a 0 0) (a 2 1)) (a 1 2))))"

section \<open>Linear systems (matrix.cpp, lsolve)\<close>

subsection \<open>Fraction-free elimination\<close>

text \<open>
  \<open>ffe_get\<close>, \<open>ffe_set\<close> and \<open>ffe_swap\<close> address a matrix from 1 and go through
  \<open>operator()\<close> and \<open>set\<close>, so they throw \<open>range_error\<close> as these do.
\<close>

definition ffe_get :: "'e matrix \<Rightarrow> int \<Rightarrow> int \<Rightarrow> 'e result" where
  "ffe_get M r c = matrix_call M (r - 1) (c - 1)"

definition ffe_set :: "'e matrix \<Rightarrow> int \<Rightarrow> int \<Rightarrow> 'e \<Rightarrow> 'e matrix result" where
  "ffe_set M r c e = matrix_set M (r - 1) (c - 1) e"

definition ffe_swap :: "'e matrix \<Rightarrow> int \<Rightarrow> int \<Rightarrow> int \<Rightarrow> int \<Rightarrow> 'e matrix result" where
  "ffe_swap M r1 c1 r2 c2 =
     on_success (ffe_get M r1 c1) (\<lambda>tmp.
     on_success (ffe_get M r2 c2) (\<lambda>x.
     on_success (ffe_set M r1 c1 x) (\<lambda>M1.
     ffe_set M1 r2 c2 tmp)))"

text \<open>
  The search for a pivot in column \<open>k\<close>,
  \<open>for (p=r; (p<=m)&&(a.ffe_get(p,k).is_equal(exZERO())); ++p) {}\<close>: the list holds the rows
  from \<open>r\<close> to \<open>m\<close> and \<open>past\<close> is \<open>m + 1\<close>, the value of \<open>p\<close> when no row has a pivot.
\<close>

fun find_pivot :: "expr matrix \<Rightarrow> int \<Rightarrow> int list \<Rightarrow> int \<Rightarrow> int result" where
  "find_pivot a k [] past = Inr past"
| "find_pivot a k (p # ps) past =
     on_success (ffe_get a p k) (\<lambda>x.
     if is_equal x (Numeric 0) then find_pivot a k ps past else Inr p)"

text \<open>The exchange of the rows \<open>p\<close> and \<open>r\<close> of \<open>a\<close> in the columns \<open>k\<close> to \<open>n\<close>.\<close>

fun ffe_swap_row :: "expr matrix \<Rightarrow> int \<Rightarrow> int \<Rightarrow> int list \<Rightarrow> expr matrix result" where
  "ffe_swap_row a p r [] = Inr a"
| "ffe_swap_row a p r (j # js) = on_success (ffe_swap a p j r j) (\<lambda>a'. ffe_swap_row a' p r js)"

text \<open>
  The loop over the columns \<open>j\<close> from \<open>k + 1\<close> to \<open>n\<close> for one row \<open>i\<close> below the pivot.
  The four reads of one statement are all within the matrix or all throw the same
  \<open>range_error\<close>, so the order in which C++ evaluates them does not show.
\<close>

fun eliminate_columns :: "ex_ops \<Rightarrow> expr matrix \<Rightarrow> int \<Rightarrow> int \<Rightarrow> int \<Rightarrow> expr \<Rightarrow> int list
    \<Rightarrow> expr matrix result" where
  "eliminate_columns ops a r k i divisor [] = Inr a"
| "eliminate_columns ops a r k i divisor (j # js) =
     on_success (ffe_get a r k) (\<lambda>ark.
     on_success (ffe_get a i j) (\<lambda>aij.
     on_success (ffe_get a r j) (\<lambda>arj.
     on_success (ffe_get a i k) (\<lambda>aik.
     on_success (ex_div ops (ex_sub ops (ex_mul ops ark aij) (ex_mul ops arj aik)) divisor) (\<lambda>q.
     on_success (ffe_set a i j q) (\<lambda>a1.
     on_success (ffe_get a1 i j) (\<lambda>x.
     on_success (ex_normal ops x) (\<lambda>nx.
     on_success (ffe_set a1 i j nx) (\<lambda>a2.
     eliminate_columns ops a2 r k i divisor js)))))))))"

text \<open>The loop over the rows \<open>i\<close> from \<open>r + 1\<close> to \<open>m\<close>.\<close>

fun eliminate_rows :: "ex_ops \<Rightarrow> expr matrix \<Rightarrow> expr matrix \<Rightarrow> int \<Rightarrow> int \<Rightarrow> int \<Rightarrow> expr
    \<Rightarrow> int list \<Rightarrow> (expr matrix \<times> expr matrix) result" where
  "eliminate_rows ops a b r k n divisor [] = Inr (a, b)"
| "eliminate_rows ops a b r k n divisor (i # is) =
     on_success (eliminate_columns ops a r k i divisor [k + 1 .. n]) (\<lambda>a1.
     on_success (ffe_get a1 r k) (\<lambda>ark.
     on_success (ffe_get b i 1) (\<lambda>bi.
     on_success (ffe_get b r 1) (\<lambda>br.
     on_success (ffe_get a1 i k) (\<lambda>aik.
     on_success (ex_div ops (ex_sub ops (ex_mul ops ark bi) (ex_mul ops br aik)) divisor) (\<lambda>q.
     on_success (ffe_set b i 1 q) (\<lambda>b1.
     on_success (ffe_get b1 i 1) (\<lambda>x.
     on_success (ex_normal ops x) (\<lambda>nx.
     on_success (ffe_set b1 i 1 nx) (\<lambda>b2.
     on_success (ffe_set a1 i k (Numeric 0)) (\<lambda>a2.
     eliminate_rows ops a2 b2 r k n divisor is)))))))))))"

text \<open>
  The reduction to upper echelon form, \<open>for (int k=1; (k<=n)&&(r<=m); ++k)\<close>, on the copies
  \<open>a\<close> and \<open>b\<close>. The variable \<open>sign\<close> of the source is written and never read (the
  determinant it would give is commented out) and is left out.
\<close>

function echelon_loop :: "ex_ops \<Rightarrow> int \<Rightarrow> int \<Rightarrow> expr matrix \<Rightarrow> expr matrix \<Rightarrow> expr \<Rightarrow> int \<Rightarrow> int
    \<Rightarrow> (expr matrix \<times> expr matrix) result" where
  "echelon_loop ops m n a b divisor r k =
     (if k \<le> n \<and> r \<le> m then
        on_success (find_pivot a k [r .. m] (m + 1)) (\<lambda>p.
          if p \<le> m then
            on_success (if p \<noteq> r
                        then on_success (ffe_swap_row a p r [k .. n]) (\<lambda>a1.
                             on_success (ffe_swap b p 1 r 1) (\<lambda>b1. Inr (a1, b1)))
                        else Inr (a, b)) (\<lambda>ab.
            on_success (eliminate_rows ops (fst ab) (snd ab) r k n divisor [r + 1 .. m]) (\<lambda>ab'.
            on_success (ffe_get (fst ab') r k) (\<lambda>d.
            echelon_loop ops m n (fst ab') (snd ab') d (r + 1) (k + 1))))
          else echelon_loop ops m n a b divisor r (k + 1))
      else Inr (a, b))"
  by pat_completeness auto
termination
  by (relation "measure (\<lambda>(ops, m, n, a, b, divisor, r, k). nat (n + 1 - k))") auto

text \<open>
  The assembly of the solution from the last row up. \<open>first_non_zero_search\<close> is the
  \<open>while\<close> loop over the columns of a row, \<open>assign_free\<close> copies the free parameters from
  \<open>vars\<close>, \<open>back_substitute\<close> is the loop \<open>e=e-a.ffe_get(r,c)*sol.ffe_get(c,1)\<close>, and
  \<open>assemble_solution\<close> is the loop \<open>for (int r=m; r>0; --r)\<close> with the state \<open>sol\<close> and
  \<open>last_assigned_sol\<close>. A row of zeros whose right-hand side is not zero throws
  \<open>runtime_error\<close>.
\<close>

fun first_non_zero_search :: "expr matrix \<Rightarrow> int \<Rightarrow> int list \<Rightarrow> int \<Rightarrow> int result" where
  "first_non_zero_search a r [] past = Inr past"
| "first_non_zero_search a r (c # cs) past =
     on_success (ffe_get a r c) (\<lambda>x.
     if is_zero_expr x then first_non_zero_search a r cs past else Inr c)"

fun assign_free :: "expr matrix \<Rightarrow> expr matrix \<Rightarrow> int list \<Rightarrow> expr matrix result" where
  "assign_free sol vars [] = Inr sol"
| "assign_free sol vars (c # cs) =
     on_success (ffe_get vars c 1) (\<lambda>v.
     on_success (ffe_set sol c 1 v) (\<lambda>sol'.
     assign_free sol' vars cs))"

fun back_substitute :: "ex_ops \<Rightarrow> expr matrix \<Rightarrow> expr matrix \<Rightarrow> int \<Rightarrow> expr \<Rightarrow> int list
    \<Rightarrow> expr result" where
  "back_substitute ops a sol r e [] = Inr e"
| "back_substitute ops a sol r e (c # cs) =
     on_success (ffe_get a r c) (\<lambda>x.
     on_success (ffe_get sol c 1) (\<lambda>y.
     back_substitute ops a sol r (ex_sub ops e (ex_mul ops x y)) cs))"

fun assemble_solution :: "ex_ops \<Rightarrow> expr matrix \<Rightarrow> expr matrix \<Rightarrow> expr matrix \<Rightarrow> int
    \<Rightarrow> expr matrix \<Rightarrow> int \<Rightarrow> int list \<Rightarrow> (expr matrix \<times> int) result" where
  "assemble_solution ops a b vars n sol last_assigned_sol [] = Inr (sol, last_assigned_sol)"
| "assemble_solution ops a b vars n sol last_assigned_sol (r # rs) =
     on_success (first_non_zero_search a r [1 .. n] (n + 1)) (\<lambda>first_non_zero.
       if first_non_zero > n then
         on_success (ffe_get b r 1) (\<lambda>br.
           if \<not> is_zero_expr br
           then Inl (Runtime_error ''matrix::fraction_free_elim(): singular matrix'')
           else assemble_solution ops a b vars n sol last_assigned_sol rs)
       else
         on_success (assign_free sol vars [first_non_zero + 1 .. last_assigned_sol - 1]) (\<lambda>sol1.
         on_success (ffe_get b r 1) (\<lambda>e.
         on_success (back_substitute ops a sol1 r e [first_non_zero + 1 .. n]) (\<lambda>e1.
         on_success (ffe_get a r first_non_zero) (\<lambda>d.
         on_success (ex_div ops e1 d) (\<lambda>q.
         on_success (ex_normal ops q) (\<lambda>nq.
         on_success (ffe_set sol1 first_non_zero 1 nq) (\<lambda>sol2.
         assemble_solution ops a b vars n sol2 first_non_zero rs))))))))"

text \<open>
  \<open>matrix::fraction_free_elim(vars, rhs)\<close>. The blocks under \<open>DOASSERT\<close> are not compiled
  and are left out.
\<close>

definition fraction_free_elim :: "ex_ops \<Rightarrow> expr matrix \<Rightarrow> expr matrix \<Rightarrow> expr matrix
    \<Rightarrow> expr matrix result" where
  "fraction_free_elim ops M vars rhs =
     (if row M \<noteq> row rhs \<or> col M \<noteq> row vars \<or> col rhs \<noteq> col vars
      then Inl (Logic_error ''matrix::solve(): incompatible matrices'')
      else
        on_success (echelon_loop ops (row M) (col M) M rhs (Numeric 1) 1 1) (\<lambda>ab.
        on_success (assemble_solution ops (fst ab) (snd ab) vars (col M)
                      (matrix_new (col M) 1) (col M + 1) (rev [1 .. row M])) (\<lambda>sl.
        assign_free (fst sl) vars [1 .. snd sl - 1])))"

subsection \<open>lsolve\<close>

text \<open>
  \<open>matrix::has\<close> on a matrix of the system: the first test compares the matrix with a
  symbol and is false, the loop asks every entry.
\<close>

definition matrix_has :: "expr matrix \<Rightarrow> expr \<Rightarrow> bool" where
  "matrix_has M other = list_ex (\<lambda>x. has x other) (mvec M)"

text \<open>The two loops of the syntax checks, over the operands \<open>i\<close> of a list.\<close>

fun check_operands :: "expr \<Rightarrow> info_flags \<Rightarrow> string \<Rightarrow> nat list \<Rightarrow> unit result" where
  "check_operands x flag msg [] = Inr ()"
| "check_operands x flag msg (i # is) =
     on_success (op x i) (\<lambda>c.
     if \<not> info c flag then Inl (Invalid_argument msg) else check_operands x flag msg is)"

definition syntax_checks :: "expr \<Rightarrow> expr \<Rightarrow> unit result" where
  "syntax_checks eqns symbols =
     (if \<not> info eqns info_list
      then Inl (Invalid_argument ''lsolve: 1st argument must be a list'')
      else
        on_success (check_operands eqns info_relation_equal
                      ''lsolve: 1st argument must be a list of equations'' [0 ..< nops eqns]) (\<lambda>u.
        if \<not> info symbols info_list
        then Inl (Invalid_argument ''lsolve: 2nd argument must be a list'')
        else check_operands symbols info_symbol
               ''lsolve: 2nd argument must be a list of symbols'' [0 ..< nops symbols]))"

text \<open>
  The matrices of the system: the loop over the symbols \<open>c\<close> for the equation \<open>r\<close>, with
  the state \<open>sys\<close> and \<open>linpart\<close>, and the loop over the equations with the state \<open>sys\<close>
  and \<open>rhs\<close>.
\<close>

fun build_row :: "ex_ops \<Rightarrow> expr \<Rightarrow> expr \<Rightarrow> nat \<Rightarrow> expr matrix \<Rightarrow> expr \<Rightarrow> nat list
    \<Rightarrow> (expr matrix \<times> expr) result" where
  "build_row ops symbols eq r sys linpart [] = Inr (sys, linpart)"
| "build_row ops symbols eq r sys linpart (c # cs) =
     on_success (op symbols c) (\<lambda>sy.
     on_success (matrix_set sys (int r) (int c) (ex_coeff ops eq sy 1)) (\<lambda>sys'.
     build_row ops symbols eq r sys'
       (ex_sub ops linpart (ex_mul ops (ex_coeff ops eq sy 1) sy)) cs))"

fun build_rows :: "ex_ops \<Rightarrow> expr \<Rightarrow> expr \<Rightarrow> expr matrix \<Rightarrow> expr matrix \<Rightarrow> nat list
    \<Rightarrow> (expr matrix \<times> expr matrix) result" where
  "build_rows ops eqns symbols sys rhs [] = Inr (sys, rhs)"
| "build_rows ops eqns symbols sys rhs (r # rs) =
     on_success (op eqns r) (\<lambda>eqr.
     on_success (op eqr 0) (\<lambda>l.
     on_success (op eqr 1) (\<lambda>rr.
     on_success (build_row ops symbols (ex_sub ops l rr) r sys (ex_sub ops l rr)
                   [0 ..< nops symbols]) (\<lambda>sl.
     on_success (matrix_set rhs (int r) 0 (ex_neg ops (ex_expand ops (snd sl)))) (\<lambda>rhs'.
     build_rows ops eqns symbols (fst sl) rhs' rs)))))"

text \<open>The test that the system is linear, which also fills \<open>vars\<close>.\<close>

fun linear_test :: "expr \<Rightarrow> expr matrix \<Rightarrow> expr matrix \<Rightarrow> expr matrix \<Rightarrow> nat list
    \<Rightarrow> expr matrix result" where
  "linear_test symbols sys rhs vars [] = Inr vars"
| "linear_test symbols sys rhs vars (i # is) =
     on_success (op symbols i) (\<lambda>sy.
     on_success (matrix_set vars (int i) 0 sy) (\<lambda>vars'.
       if matrix_has sys sy then Inl (Logic_error ''lsolve: system is not linear'')
       else if matrix_has rhs sy then Inl (Logic_error ''lsolve: system is not linear'')
       else linear_test symbols sys rhs vars' is))"

text \<open>
  All of \<open>lsolve\<close> before the \<open>try\<close> block, on the lists of equations and symbols: the
  syntax checks, then the matrices \<open>sys\<close>, \<open>vars\<close> and \<open>rhs\<close>.
\<close>

definition system_matrices :: "ex_ops \<Rightarrow> expr \<Rightarrow> expr
    \<Rightarrow> (expr matrix \<times> expr matrix \<times> expr matrix) result" where
  "system_matrices ops eqns symbols =
     on_success (syntax_checks eqns symbols) (\<lambda>u.
     on_success (build_rows ops eqns symbols
                   (matrix_new (int (nops eqns)) (int (nops symbols)))
                   (matrix_new (int (nops eqns)) 1) [0 ..< nops eqns]) (\<lambda>sr.
     on_success (linear_test symbols (fst sr) (snd sr) (matrix_new (int (nops symbols)) 1)
                   [0 ..< nops symbols]) (\<lambda>vars.
     Inr (fst sr, vars, snd sr))))"

text \<open>The list \<open>lst(var1==sol1, var2==sol2, ...)\<close>.\<close>

fun solution_list :: "expr \<Rightarrow> expr matrix \<Rightarrow> nat list \<Rightarrow> expr list \<Rightarrow> expr list result" where
  "solution_list symbols solution [] sollist = Inr sollist"
| "solution_list symbols solution (i # is) sollist =
     on_success (op symbols i) (\<lambda>sy.
     on_success (matrix_call solution (int i) 0) (\<lambda>x.
     solution_list symbols solution is (sollist @ [Relational sy op_equal x])))"

text \<open>
  \<open>try { solution = sys.fraction_free_elim(vars,rhs); } catch (const runtime_error & e)
  { return lst(); }\<close> and the rest of \<open>lsolve\<close>. The handler takes every exception whose
  class is \<open>runtime_error\<close> or derives from it (\<open>range_error\<close> does) and returns the empty
  list; an exception of another class leaves \<open>lsolve\<close>. The two lines written to \<open>cout\<close>
  before the last \<open>throw\<close> are not modelled.
\<close>

definition solve_system :: "ex_ops \<Rightarrow> expr \<Rightarrow> expr matrix \<Rightarrow> expr matrix \<Rightarrow> expr matrix
    \<Rightarrow> expr result" where
  "solve_system ops symbols sys vars rhs =
     (case fraction_free_elim ops sys vars rhs of
        Inl err \<Rightarrow> if is_runtime_error err then Inr (Lst []) else Inl err
      | Inr solution \<Rightarrow>
          if col solution \<noteq> 1
          then Inl (Runtime_error
                 ''lsolve: strange number of columns returned from matrix::solve'')
          else if row solution \<noteq> int (nops symbols)
          then Inl (Runtime_error
                 ''lsolve: strange number of rows returned from matrix::solve'')
          else on_success (solution_list symbols solution [0 ..< nops symbols] [])
                 (\<lambda>sollist. Inr (Lst sollist)))"

text \<open>
  \<open>lsolve(eqns, symbols)\<close>. Called with one equation and one symbol it calls itself with
  the two lists \<open>lst(eqns)\<close> and \<open>lst(symbols)\<close>; a list is not an equation, so the inner
  call runs the part after the first \<open>if\<close>, which is \<open>lsolve_lists\<close>, and the recursion
  is one call deep. The two \<open>GINAC_ASSERT\<close> lines are not compiled; \<open>sol.op(0)\<close> on an empty
  list is the undefined behaviour of \<open>op\<close>.
\<close>

definition lsolve_lists :: "ex_ops \<Rightarrow> expr \<Rightarrow> expr \<Rightarrow> expr result" where
  "lsolve_lists ops eqns symbols =
     on_success (system_matrices ops eqns symbols) (\<lambda>svr.
     solve_system ops symbols (fst svr) (fst (snd svr)) (snd (snd svr)))"

definition lsolve :: "ex_ops \<Rightarrow> expr \<Rightarrow> expr \<Rightarrow> expr result" where
  "lsolve ops eqns symbols =
     (if info eqns info_relation_equal then
        if \<not> info symbols info_symbol
        then Inl (Invalid_argument ''lsolve: 2nd argument must be a symbol'')
        else
          on_success (lsolve_lists ops (Lst [eqns]) (Lst [symbols])) (\<lambda>sol.
          on_success (op sol 0) (\<lambda>s0.
          op s0 1))
      else lsolve_lists ops eqns symbols)"

section \<open>Properties\<close>

subsection \<open>Bits of the 7-bit packets\<close>

lemma c7f: "(0x7f :: 'a::len word) = mask 7"
  by (simp add: mask_eq_exp_minus_1)

lemma bit_0x80: "bit (0x80 :: 'a::len word) n \<longleftrightarrow> n = 7 \<and> 7 < LENGTH('a)"
proof -
  have "(0x80 :: 'a word) = 2 ^ 7" by simp
  then show ?thesis by (simp only: bit_exp_iff) (auto simp add: bit_simps)
qed

lemma bit_int_0x80: "bit (0x80 :: int) n \<longleftrightarrow> n = 7"
proof -
  have "(0x80 :: int) = 2 ^ 7" by simp
  then show ?thesis by (simp only: bit_exp_iff) (auto simp add: bit_simps)
qed

lemma bit_int_0x7f: "bit (0x7f :: int) n \<longleftrightarrow> n < 7"
proof -
  have "(0x7f :: int) = mask 7" by (simp add: mask_eq_exp_minus_1)
  then show ?thesis by (simp only: bit_mask_iff) (auto simp add: bit_simps)
qed

lemmas packet_bits = bit_simps bit_0x80 bit_int_0x80 bit_int_0x7f

lemma packet_low7: "ucast ((ucast ((v::u32) AND 0x7f OR 0x80) :: byte) AND 0x7f) = v AND 0x7f"
  unfolding c7f
  by (rule bit_word_eqI) (auto simp add: packet_bits)

lemma packet_high_set: "(ucast ((v::u32) AND 0x7f OR 0x80) :: byte) AND 0x80 \<noteq> 0"
proof -
  have "bit ((ucast ((v::u32) AND 0x7f OR 0x80) :: byte) AND 0x80) 7"
    by (simp add: packet_bits)
  then show ?thesis by (metis bit_0_eq bot_apply bot_bool_def)
qed

lemma last_packet:
  assumes "\<not> 0x80 \<le> (v::u32)"
  shows "(ucast v :: byte) AND 0x80 = 0" and "ucast ((ucast v :: byte) AND 0x7f) = v"
proof -
  from assms have "v < 2 ^ 7" by (simp add: not_le)
  then have "take_bit 7 v = v" by (simp add: less_mask_eq take_bit_eq_mask)
  then have hi: "\<not> bit v n" if "7 \<le> n" for n
    using that by (metis bit_take_bit_iff not_less)
  show "(ucast v :: byte) AND 0x80 = 0"
    by (rule bit_word_eqI) (auto simp add: packet_bits hi)
  show "ucast ((ucast v :: byte) AND 0x7f) = v"
    unfolding c7f
  proof (rule bit_word_eqI)
    fix n assume "n < LENGTH(32)"
    have "bit v n \<Longrightarrow> n < 7" using hi[of n] by (cases "7 \<le> n") auto
    then show "bit (ucast ((ucast v :: byte) AND mask 7) :: u32) n = bit v n"
      by (auto simp add: packet_bits)
  qed
qed

lemma packets_recombine:
  "push_bit s ((v::u32) AND 0x7f) OR push_bit (s + 7) (drop_bit 7 v) = push_bit s v"
proof -
  have "(v AND mask 7) OR push_bit 7 (drop_bit 7 v) = v"
  proof (rule bit_word_eqI)
    fix n assume n: "n < LENGTH(32)"
    have "7 \<le> n \<Longrightarrow> 7 + (n - 7) = n" by simp
    then show "bit ((v AND mask 7) OR push_bit 7 (drop_bit 7 v)) n = bit v n"
      using n by (cases "7 \<le> n") (auto simp add: packet_bits)
  qed
  then have "push_bit s ((v AND 0x7f) OR push_bit 7 (drop_bit 7 v)) = push_bit s v"
    by (simp add: c7f)
  then show ?thesis
    by (simp add: push_bit_or push_bit_push_bit add.commute del: push_bit_and)
qed

lemma drop7_bound:
  fixes v :: u32
  assumes "unat v < 2 ^ (32 - shift)" "shift + 7 < 32"
  shows "unat (drop_bit 7 v) < 2 ^ (32 - (shift + 7))"
proof -
  have "(2::nat) ^ (32 - shift) = 2 ^ ((32 - (shift + 7)) + 7)" using assms(2) by simp
  then have "unat v < 2 ^ (32 - (shift + 7)) * 2 ^ 7"
    using assms(1) by (simp only: power_add)
  then show ?thesis
    by (simp add: drop_bit_eq_div unat_div less_mult_imp_div_less)
qed

subsection \<open>Writing and reading back an unsigned quantity\<close>

lemma write_unsigned_append: "write_unsigned os v = os @ write_unsigned [] v"
proof (induction v arbitrary: os rule: measure_induct_rule[of unat])
  case (less v)
  show ?case
  proof (cases "0x80 \<le> v")
    case True
    let ?b = "ucast ((v AND 0x7f) OR 0x80) :: byte"
    let ?d = "drop_bit 7 v"
    from True have "128 \<le> unat v" by (simp add: word_le_nat_alt)
    then have sm: "unat ?d < unat v" by (simp add: drop_bit_eq_div unat_div)
    have step: "write_unsigned xs v = write_unsigned (xs @ [?b]) ?d" for xs
      using True by (subst write_unsigned.simps) simp
    have "write_unsigned os v = (os @ [?b]) @ write_unsigned [] ?d"
      by (simp only: step[of os] less.IH[OF sm, of "os @ [?b]"])
    moreover have "write_unsigned [] v = [?b] @ write_unsigned [] ?d"
      using step[of "[]"] less.IH[OF sm, of "[?b]"] by simp
    ultimately show ?thesis by simp
  next
    case False
    then show ?thesis by (simp add: write_unsigned.simps)
  qed
qed

lemma write_unsigned_Nil:
  "write_unsigned [] v =
     (if v \<ge> 0x80 then ucast ((v AND 0x7f) OR 0x80) # write_unsigned [] (drop_bit 7 v)
      else [ucast v])"
  by (subst write_unsigned.simps, subst write_unsigned_append) simp

lemma read_write_loop:
  "shift < 32 \<Longrightarrow> unat v < 2 ^ (32 - shift) \<Longrightarrow>
   read_unsigned_loop (write_unsigned [] v @ tail) ret shift = Inr (ret OR push_bit shift v, tail)"
proof (induction v arbitrary: ret shift rule: measure_induct_rule[of unat])
  case (less v)
  show ?case
  proof (cases "0x80 \<le> v")
    case False
    then show ?thesis using less.prems
      by (subst write_unsigned_Nil) (simp add: last_packet)
  next
    case True
    then have ge: "128 \<le> unat v" by (simp add: word_le_nat_alt)
    have sh: "shift + 7 < 32"
    proof (rule ccontr)
      assume "\<not> shift + 7 < 32"
      then have "32 - shift \<le> 7" by simp
      then have "(2::nat) ^ (32 - shift) \<le> 2 ^ 7" by (rule power_increasing) simp
      with less.prems(2) ge show False by simp
    qed
    have sm: "unat (drop_bit 7 v) < unat v"
      using ge by (simp add: drop_bit_eq_div unat_div)
    have bd: "unat (drop_bit 7 v) < 2 ^ (32 - (shift + 7))"
      using less.prems(2) sh by (rule drop7_bound)
    have "read_unsigned_loop (write_unsigned [] v @ tail) ret shift =
          read_unsigned_loop (write_unsigned [] (drop_bit 7 v) @ tail)
            (ret OR push_bit shift (v AND 0x7f)) (shift + 7)"
      using True less.prems(1)
      by (subst write_unsigned_Nil) (simp add: packet_low7 packet_high_set)
    also have "\<dots> = Inr ((ret OR push_bit shift (v AND 0x7f))
                        OR push_bit (shift + 7) (drop_bit 7 v), tail)"
      by (rule less.IH[OF sm sh bd])
    finally show ?thesis by (simp only: packets_recombine or.assoc)
  qed
qed

lemma read_write_unsigned: "read_unsigned (write_unsigned [] v @ tail) = Inr (v, tail)"
proof -
  have "unat v < 2 ^ (32 - 0)" using unsigned_less[of v] by simp
  then show ?thesis
    unfolding read_unsigned_def using read_write_loop[of 0 v tail 0] by simp
qed

text \<open>
  C3. \<open>write_unsigned\<close> appends a value of at most 0x7f as one byte holding the value,
  and a larger value as the byte made of its low seven bits with the high bit set, followed
  by the encoding of the remaining bits; \<open>read_unsigned\<close> applied to the bytes written for
  any 32-bit value, whatever follows them in the stream, returns that value and leaves
  the stream after them; so two values with the same encoding are equal.
\<close>

theorem unsigned_wire_roundtrip:
  "(v \<le> 0x7f \<longrightarrow> write_unsigned os v = os @ [ucast v])
   \<and> (v > 0x7f \<longrightarrow> write_unsigned os v
         = os @ [ucast ((v AND 0x7f) OR 0x80)] @ write_unsigned [] (drop_bit 7 v))
   \<and> read_unsigned (write_unsigned [] v @ tail) = Inr (v, tail)
   \<and> (write_unsigned [] v = write_unsigned [] w \<longrightarrow> v = w)"
proof (intro conjI impI)
  assume "v \<le> 0x7f"
  then have "\<not> 0x80 \<le> v" by (simp add: word_le_nat_alt)
  then show "write_unsigned os v = os @ [ucast v]" by (simp add: write_unsigned.simps)
next
  assume "v > 0x7f"
  then have "0x80 \<le> v" by (simp add: word_le_nat_alt word_less_nat_alt)
  then show "write_unsigned os v
         = os @ [ucast ((v AND 0x7f) OR 0x80)] @ write_unsigned [] (drop_bit 7 v)"
    by (subst write_unsigned_append, subst write_unsigned_Nil) simp
next
  show "read_unsigned (write_unsigned [] v @ tail) = Inr (v, tail)"
    by (rule read_write_unsigned)
next
  assume eq: "write_unsigned [] v = write_unsigned [] w"
  have "read_unsigned (write_unsigned [] v @ []) = Inr (v, [])" by (rule read_write_unsigned)
  moreover have "read_unsigned (write_unsigned [] w @ []) = Inr (w, [])"
    by (rule read_write_unsigned)
  ultimately show "v = w" using eq by simp
qed

theorem unsigned_wire_roundtrip_witness:
  "write_unsigned [0x47] 0x05 = [0x47, 0x05]
   \<and> write_unsigned [0x47] 0x4000 = [0x47, 0x80] @ write_unsigned [] 0x80
   \<and> read_unsigned (write_unsigned [] 0x4000 @ [0x07]) = Inr (0x4000, [0x07])"
  using unsigned_wire_roundtrip [of "0x05" "[0x47]" "[0x07]" "0x05"]
        unsigned_wire_roundtrip [of "0x4000" "[0x47]" "[0x07]" "0x4000"]
  by simp

subsection \<open>The default handle\<close>

text \<open>
  C10. A default-constructed handle holds the address of the node of \<open>exZERO()\<close>, whose
  reference count it has incremented; it is zero, and comparing it with \<open>exZERO()\<close> gives
  0 whatever the comparison of nodes would answer, since that comparison is not called.
\<close>

theorem default_handle_is_zero:
  "bp (fst (ex_default exZERO h)) = bp exZERO
   \<and> refcount (snd (ex_default exZERO h) (bp exZERO)) = refcount (h (bp exZERO)) + 1
   \<and> is_zero basic_compare exZERO (fst (ex_default exZERO h))
   \<and> compare basic_compare (fst (ex_default exZERO h)) exZERO = 0
   \<and> compare basic_compare (fst (ex_default exZERO h)) exZERO
       = compare (\<lambda>a b. 1) (fst (ex_default exZERO h)) exZERO"
  by (simp add: ex_default_def is_zero_def compare_def Let_def)

subsection \<open>Index checks\<close>

lemma vec_at_not_range: "vec_at v i \<noteq> Inl (Range_error msg)"
  by (simp add: vec_at_def)

text \<open>
  C4. \<open>matrix::operator()\<close> throws a \<open>range_error\<close> exactly when the row or the column
  is outside the matrix, and for a matrix holding \<open>row * col\<close> entries it otherwise
  returns the entry at position \<open>ro * col + co\<close> of the row-by-row storage;
  \<open>archive::get_node\<close> and \<open>archive::unatomize\<close> throw a \<open>range_error\<close> exactly when the
  index is not below the size of their table, and otherwise return the entry stored at
  the index.
\<close>

theorem range_checked_access:
  "((\<exists>msg. matrix_call M ro co = Inl (Range_error msg))
      \<longleftrightarrow> (ro < 0 \<or> ro \<ge> row M \<or> co < 0 \<or> co \<ge> col M))
   \<and> (length (mvec M) = nat (row M * col M) \<and> 0 \<le> ro \<and> ro < row M \<and> 0 \<le> co \<and> co < col M
        \<longrightarrow> matrix_call M ro co = Inr (mvec M ! nat (ro * col M + co)))
   \<and> ((\<exists>msg. get_node ar ident = Inl (Range_error msg)) \<longleftrightarrow> \<not> ident < length (nodes ar))
   \<and> (ident < length (nodes ar) \<longrightarrow> get_node ar ident = Inr (nodes ar ! ident))
   \<and> ((\<exists>msg. unatomize ar ident = Inl (Range_error msg)) \<longleftrightarrow> \<not> ident < length (atoms ar))
   \<and> (ident < length (atoms ar) \<longrightarrow> unatomize ar ident = Inr (atoms ar ! ident))"
proof (intro conjI impI)
  show "(\<exists>msg. matrix_call M ro co = Inl (Range_error msg))
      \<longleftrightarrow> (ro < 0 \<or> ro \<ge> row M \<or> co < 0 \<or> co \<ge> col M)"
    by (auto simp add: matrix_call_def vec_at_not_range)
next
  assume h: "length (mvec M) = nat (row M * col M) \<and> 0 \<le> ro \<and> ro < row M \<and> 0 \<le> co \<and> co < col M"
  then have "ro * col M + co < (ro + 1) * col M" by (simp add: algebra_simps)
  also have "\<dots> \<le> row M * col M" using h by (intro mult_right_mono) auto
  finally have "ro * col M + co < row M * col M" .
  moreover have "0 \<le> ro * col M + co" using h by simp
  ultimately show "matrix_call M ro co = Inr (mvec M ! nat (ro * col M + co))"
    using h by (simp add: matrix_call_def vec_at_def)
qed (auto simp add: get_node_def unatomize_def)

theorem range_checked_access_witness:
  "matrix_call \<lparr>row = 2, col = 2, mvec = [10, 20, 30, 40 :: int]\<rparr> 1 0 = Inr 30
   \<and> (\<exists>msg. matrix_call \<lparr>row = 2, col = 2, mvec = [10, 20, 30, 40 :: int]\<rparr> 2 0 = Inl (Range_error msg))
   \<and> get_node \<lparr>atoms = [''x''], exprs = [],
         nodes = [\<lparr>props = [], has_expression = False, node_e = \<lparr>bp = 0\<rparr>\<rparr>]\<rparr> 0
       = Inr \<lparr>props = [], has_expression = False, node_e = \<lparr>bp = 0\<rparr>\<rparr>
   \<and> unatomize \<lparr>atoms = [''x''], exprs = [],
         nodes = [\<lparr>props = [], has_expression = False, node_e = \<lparr>bp = 0\<rparr>\<rparr>]\<rparr> 0
       = Inr ''x''"
  using range_checked_access [of "\<lparr>row = 2, col = 2, mvec = [10, 20, 30, 40 :: int]\<rparr>" 1 0
          "\<lparr>atoms = [''x''], exprs = [],
            nodes = [\<lparr>props = [], has_expression = False, node_e = \<lparr>bp = 0\<rparr>\<rparr>]\<rparr>" 0]
        range_checked_access [of "\<lparr>row = 2, col = 2, mvec = [10, 20, 30, 40 :: int]\<rparr>" 2 0
          "\<lparr>atoms = [''x''], exprs = [],
            nodes = [\<lparr>props = [], has_expression = False, node_e = \<lparr>bp = 0\<rparr>\<rparr>]\<rparr>" 0]
  by simp

subsection \<open>The version check of the archive reader\<close>

lemma on_success_Inl [simp]: "on_success (Inl err) f = Inl err"
  by (simp add: on_success_def)

lemma on_success_Inr [simp]: "on_success (Inr x) f = f x"
  by (simp add: on_success_def)

lemma on_success_runtime:
  assumes "on_success r f = Inl (Runtime_error msg)"
    and "r \<noteq> Inl (Runtime_error msg)"
  obtains x where "r = Inr x" and "f x = Inl (Runtime_error msg)"
  using assms by (cases r) auto

lemma read_unsigned_loop_no_runtime:
  "read_unsigned_loop is ret shift \<noteq> Inl (Runtime_error msg)"
  by (induction "is" ret shift rule: read_unsigned_loop.induct) (simp_all add: Let_def)

lemma read_unsigned_no_runtime: "read_unsigned is \<noteq> Inl (Runtime_error msg)"
  by (simp add: read_unsigned_def read_unsigned_loop_no_runtime)

lemma getline_no_runtime: "getline is \<noteq> Inl (Runtime_error msg)"
  by (induction "is") (auto split: sum.splits)

lemma read_atoms_no_runtime: "read_atoms k is \<noteq> Inl (Runtime_error msg)"
  by (induction k arbitrary: "is") (auto split: sum.splits simp add: getline_no_runtime)

lemma read_exprs_no_runtime: "read_exprs k is \<noteq> Inl (Runtime_error msg)"
  by (induction k arbitrary: "is") (auto split: sum.splits simp add: read_unsigned_no_runtime)

lemma read_props_no_runtime: "read_props k is \<noteq> Inl (Runtime_error msg)"
  by (induction k arbitrary: "is") (auto split: sum.splits simp add: read_unsigned_no_runtime)

lemma read_archive_node_no_runtime: "read_archive_node is n \<noteq> Inl (Runtime_error msg)"
  by (auto simp add: read_archive_node_def read_unsigned_no_runtime read_props_no_runtime
      split: sum.splits)

lemma read_nodes_no_runtime: "read_nodes ns is \<noteq> Inl (Runtime_error msg)"
  by (induction ns arbitrary: "is")
    (auto split: sum.splits simp add: read_archive_node_no_runtime)

lemma read_tables_no_runtime: "read_tables z is ar \<noteq> Inl (Runtime_error msg)"
proof
  assume a: "read_tables z is ar = Inl (Runtime_error msg)"
  show False
    using a unfolding read_tables_def
    by (auto elim!: on_success_runtime
        simp add: read_unsigned_no_runtime read_atoms_no_runtime read_exprs_no_runtime
          read_nodes_no_runtime)
qed

lemma archive_read_after_magic:
  "archive_read V A z ([0x47, 0x41, 0x52, 0x43] @ write_unsigned [] version @ tail) ar =
     (if version > V \<or> version < V - A
      then Inl (Runtime_error ''archive version cannot be read by this GiNaC library'')
      else read_tables z tail ar)"
  by (simp add: archive_read_def read_write_unsigned)

text \<open>
  C7. For a stream that starts with the signature \<open>G A R C\<close> followed by the encoding
  of a version number, reading throws a \<open>runtime_error\<close> exactly when the version is
  greater than \<open>ARCHIVE_VERSION\<close> or less than \<open>ARCHIVE_VERSION - ARCHIVE_AGE\<close>, the
  difference taken as the code takes it, in unsigned 32-bit arithmetic; a version inside
  the closed interval passes the check and the reader goes on to the tables. When the
  age is not larger than the version the unsigned difference is the difference of the
  numbers. A stream with another signature is rejected before the version is read.
\<close>

theorem archive_version_check:
  "((\<exists>msg. archive_read V A z ([0x47, 0x41, 0x52, 0x43] @ write_unsigned [] version @ tail) ar
        = Inl (Runtime_error msg))
      \<longleftrightarrow> (version > V \<or> version < V - A))
   \<and> (V - A \<le> version \<and> version \<le> V \<longrightarrow>
        archive_read V A z ([0x47, 0x41, 0x52, 0x43] @ write_unsigned [] version @ tail) ar
          = read_tables z tail ar)
   \<and> (unat A \<le> unat V \<longrightarrow>
        ((\<exists>msg. archive_read V A z ([0x47, 0x41, 0x52, 0x43] @ write_unsigned [] version @ tail) ar
            = Inl (Runtime_error msg))
          \<longleftrightarrow> (unat version > unat V \<or> unat version < unat V - unat A)))
   \<and> ([c1, c2, c3, c4] \<noteq> [0x47, 0x41, 0x52, 0x43] \<longrightarrow>
        archive_read V A z (c1 # c2 # c3 # c4 # tail) ar
          = Inl (Runtime_error ''not a GiNaC archive (signature not found)''))"
proof -
  let ?r = "archive_read V A z ([0x47, 0x41, 0x52, 0x43] @ write_unsigned [] version @ tail) ar"
  have iff: "(\<exists>msg. ?r = Inl (Runtime_error msg)) \<longleftrightarrow> (version > V \<or> version < V - A)"
    by (simp only: archive_read_after_magic) (auto simp add: read_tables_no_runtime)
  have pass: "V - A \<le> version \<and> version \<le> V \<Longrightarrow> ?r = read_tables z tail ar"
    by (simp only: archive_read_after_magic) (auto simp add: not_less)
  have nat: "unat A \<le> unat V \<Longrightarrow>
      (version > V \<or> version < V - A) \<longleftrightarrow> (unat version > unat V \<or> unat version < unat V - unat A)"
  proof -
    assume "unat A \<le> unat V"
    then have "A \<le> V" by (simp add: word_le_nat_alt)
    then have "unat (V - A) = unat V - unat A" by (rule unat_sub)
    then show ?thesis by (simp add: word_less_nat_alt)
  qed
  have magic: "[c1, c2, c3, c4] \<noteq> [0x47, 0x41, 0x52, 0x43] \<Longrightarrow>
      archive_read V A z (c1 # c2 # c3 # c4 # tail) ar
        = Inl (Runtime_error ''not a GiNaC archive (signature not found)'')"
    by (auto simp add: archive_read_def)
  show ?thesis using iff pass nat magic by blast
qed

theorem archive_version_check_witness:
  "archive_read 2 1 \<lparr>bp = 0\<rparr> ([0x47, 0x41, 0x52, 0x43] @ write_unsigned [] 1 @ [0, 0, 0]) empty_archive
     = read_tables \<lparr>bp = 0\<rparr> [0, 0, 0] empty_archive
   \<and> (\<exists>msg. archive_read 2 1 \<lparr>bp = 0\<rparr> ([0x47, 0x41, 0x52, 0x43] @ write_unsigned [] 3 @ [0, 0, 0])
          empty_archive = Inl (Runtime_error msg))
   \<and> archive_read 2 1 \<lparr>bp = 0\<rparr> (0x47 # 0x41 # 0x52 # 0x44 # [0, 0, 0]) empty_archive
     = Inl (Runtime_error ''not a GiNaC archive (signature not found)'')"
  using archive_version_check [where V = 2 and A = 1 and z = "\<lparr>bp = 0\<rparr>" and version = 1
          and tail = "[0, 0, 0]" and ar = empty_archive
          and ?c1.0 = "0x47" and ?c2.0 = "0x41" and ?c3.0 = "0x52" and ?c4.0 = "0x44"]
        archive_version_check [where V = 2 and A = 1 and z = "\<lparr>bp = 0\<rparr>" and version = 3
          and tail = "[0, 0, 0]" and ar = empty_archive
          and ?c1.0 = "0x47" and ?c2.0 = "0x41" and ?c3.0 = "0x52" and ?c4.0 = "0x44"]
  by simp

subsection \<open>De-duplication of archived nodes\<close>

lemma add_node_search_found:
  "add_node_search ns n k = Inl ident \<Longrightarrow>
     k \<le> ident \<and> ident - k < length ns \<and> has_same_ex_as (ns ! (ident - k)) n"
proof (induction ns arbitrary: k)
  case Nil
  then show ?case by simp
next
  case (Cons i rest')
  show ?case
  proof (cases "has_same_ex_as i n")
    case True
    with Cons.prems show ?thesis by simp
  next
    case False
    with Cons.prems have "add_node_search rest' n (k + 1) = Inl ident" by simp
    from Cons.IH[OF this]
    have ih: "k + 1 \<le> ident" "ident - (k + 1) < length rest'"
      "has_same_ex_as (rest' ! (ident - (k + 1))) n" by simp_all
    from ih(1) have "ident - k = Suc (ident - (k + 1))" by simp
    with ih show ?thesis by simp
  qed
qed

lemma add_node_search_not_found:
  "add_node_search ns n k = Inr ident \<Longrightarrow>
     ident = k + length ns \<and> (\<forall>i \<in> set ns. \<not> has_same_ex_as i n)"
proof (induction ns arbitrary: k)
  case Nil
  then show ?case by simp
next
  case (Cons i rest')
  from Cons.prems have no: "\<not> has_same_ex_as i n" by (auto split: if_splits)
  with Cons.prems have "add_node_search rest' n (k + 1) = Inr ident" by simp
  from Cons.IH[OF this] no show ?case by simp
qed

lemma add_node_search_first:
  "add_node_search ns n k = Inl ident \<Longrightarrow> \<forall>j < ident - k. \<not> has_same_ex_as (ns ! j) n"
proof (induction ns arbitrary: k)
  case Nil
  then show ?case by simp
next
  case (Cons i rest')
  show ?case
  proof (cases "has_same_ex_as i n")
    case True
    with Cons.prems show ?thesis by simp
  next
    case False
    with Cons.prems have s: "add_node_search rest' n (k + 1) = Inl ident" by simp
    from Cons.IH[OF s] have ih: "\<forall>j < ident - (k + 1). \<not> has_same_ex_as (rest' ! j) n" .
    show ?thesis
    proof (intro allI impI)
      fix j assume j: "j < ident - k"
      show "\<not> has_same_ex_as ((i # rest') ! j) n"
      proof (cases j)
        case 0
        then show ?thesis using False by simp
      next
        case (Suc j')
        then have "j' < ident - (k + 1)" using j by simp
        with ih Suc show ?thesis by simp
      qed
    qed
  qed
qed

lemma one_node_per_ex_append:
  assumes "one_node_per_ex ar" and "\<forall>i \<in> set (nodes ar). \<not> has_same_ex_as i n"
  shows "one_node_per_ex (ar\<lparr>nodes := nodes ar @ [n]\<rparr>)"
proof (cases "has_expression n")
  case False
  with assms(1) show ?thesis by (simp add: one_node_per_ex_def)
next
  case True
  have "bp (node_e n) \<notin> (\<lambda>i. bp (node_e i)) ` set (filter has_expression (nodes ar))"
    using assms(2) True by (auto simp add: has_same_ex_as_def)
  with assms(1) True show ?thesis by (simp add: one_node_per_ex_def)
qed

lemma add_node_keeps: "one_node_per_ex ar \<Longrightarrow> one_node_per_ex (snd (add_node ar n))"
  by (auto simp add: add_node_def split: sum.splits
      dest: add_node_search_not_found intro: one_node_per_ex_append)

lemma atomize_nodes [simp]: "nodes (snd (atomize ar s)) = nodes ar"
  by (simp add: atomize_def split: sum.splits)

lemma atomize_keeps: "one_node_per_ex ar \<Longrightarrow> one_node_per_ex (snd (atomize ar s))"
  by (simp add: one_node_per_ex_def)

lemma ctor_and_hook_keep:
  "(one_node_per_ex ar \<longrightarrow> one_node_per_ex (fst (archive_node_ctor value_first ar ex_e)))"
  "(one_node_per_ex ar \<longrightarrow> one_node_per_ex (fst (run_hook value_first ar n calls)))"
proof (induction value_first ar ex_e and value_first ar n calls
    rule: archive_node_ctor_run_hook.induct)
  case (1 value_first ar p calls)
  then show ?case by simp
next
  case (2 value_first ar n)
  then show ?case by simp
next
  case (3 value_first ar n nm v calls)
  show ?case
  proof
    assume inv: "one_node_per_ex ar"
    obtain a ar1 where at: "atomize ar nm = (a, ar1)" by (cases "atomize ar nm")
    have "one_node_per_ex ar1" using atomize_keeps[OF inv, of nm] at by simp
    then show "one_node_per_ex (fst (run_hook value_first ar n (Add_bool nm v # calls)))"
      using 3[OF at[symmetric] refl] at by simp
  qed
next
  case (4 value_first ar n nm v calls)
  show ?case
  proof
    assume inv: "one_node_per_ex ar"
    obtain a ar1 where at: "atomize ar nm = (a, ar1)" by (cases "atomize ar nm")
    have "one_node_per_ex ar1" using atomize_keeps[OF inv, of nm] at by simp
    then show "one_node_per_ex (fst (run_hook value_first ar n (Add_unsigned nm v # calls)))"
      using 4[OF at[symmetric] refl] at by simp
  qed
next
  case (5 value_first ar n nm v calls)
  show ?case
  proof
    assume inv: "one_node_per_ex ar"
    define abr where "abr =
      (if value_first
       then (let (b, ar1) = atomize ar v; (a, ar2) = atomize ar1 nm in (a, b, ar2))
       else (let (a, ar1) = atomize ar nm; (b, ar2) = atomize ar1 v in (a, b, ar2)))"
    obtain a b ar2 where abr: "abr = (a, b, ar2)" by (cases abr)
    have "snd (snd abr) = snd (atomize (snd (atomize ar v)) nm)
        \<or> snd (snd abr) = snd (atomize (snd (atomize ar nm)) v)"
      by (simp add: abr_def case_prod_unfold Let_def)
    then have "one_node_per_ex (snd (snd abr))"
      using atomize_keeps [OF atomize_keeps [OF inv]] by auto
    then have "one_node_per_ex ar2" using abr by simp
    then show "one_node_per_ex (fst (run_hook value_first ar n (Add_string nm v # calls)))"
      using 5 [OF abr [unfolded abr_def, symmetric] refl refl] abr [unfolded abr_def] by simp
  qed
next
  case (6 value_first ar n nm v calls)
  show ?case
  proof
    assume inv: "one_node_per_ex ar"
    obtain ar1 child where ct: "archive_node_ctor value_first ar v = (ar1, child)"
      by (cases "archive_node_ctor value_first ar v")
    obtain ident ar2 where ad: "add_node ar1 child = (ident, ar2)"
      by (cases "add_node ar1 child")
    obtain a ar3 where at: "atomize ar2 nm = (a, ar3)" by (cases "atomize ar2 nm")
    have "one_node_per_ex ar1" using 6(1) inv ct by simp
    then have "one_node_per_ex ar2" using add_node_keeps[of ar1 child] ad by simp
    then have "one_node_per_ex ar3" using atomize_keeps[of ar2 nm] at by simp
    then show "one_node_per_ex (fst (run_hook value_first ar n (Add_ex nm v # calls)))"
      using 6(2)[OF ct[symmetric] refl ad[symmetric] refl at[symmetric] refl] ct ad at by simp
  qed
qed

lemma archive_ex_keeps:
  "one_node_per_ex ar \<Longrightarrow> one_node_per_ex (archive_ex value_first ar ex_e nm)"
proof -
  assume inv: "one_node_per_ex ar"
  obtain ar1 n where ct: "archive_node_ctor value_first ar ex_e = (ar1, n)"
    by (cases "archive_node_ctor value_first ar ex_e")
  obtain ident ar2 where ad: "add_node ar1 n = (ident, ar2)" by (cases "add_node ar1 n")
  obtain a ar3 where at: "atomize ar2 nm = (a, ar3)" by (cases "atomize ar2 nm")
  have "one_node_per_ex ar1" using ctor_and_hook_keep(1)[of ar value_first ex_e] inv ct by simp
  then have "one_node_per_ex ar2" using add_node_keeps[of ar1 n] ad by simp
  then have "one_node_per_ex ar3" using atomize_keeps[of ar2 nm] at by simp
  then show ?thesis by (simp add: archive_ex_def ct ad at one_node_per_ex_def)
qed

lemma run_calls_keep:
  "one_node_per_ex ar \<Longrightarrow> one_node_per_ex (run_calls value_first ar calls)"
  by (induction value_first ar calls rule: run_calls.induct)
     (simp_all add: add_node_keeps archive_ex_keeps)

lemma add_node_reuses:
  assumes "\<exists>i < length (nodes ar). has_same_ex_as (nodes ar ! i) n"
  shows "snd (add_node ar n) = ar" and "fst (add_node ar n) < length (nodes ar)"
    and "has_same_ex_as (nodes ar ! fst (add_node ar n)) n"
    and "\<forall>j < fst (add_node ar n). \<not> has_same_ex_as (nodes ar ! j) n"
proof -
  from assms obtain i where i: "i < length (nodes ar)" "has_same_ex_as (nodes ar ! i) n" by blast
  have "\<not> (\<exists>ident. add_node_search (nodes ar) n 0 = Inr ident)"
  proof
    assume "\<exists>ident. add_node_search (nodes ar) n 0 = Inr ident"
    then obtain ident where "add_node_search (nodes ar) n 0 = Inr ident" by blast
    from add_node_search_not_found[OF this] i nth_mem[OF i(1)] show False by auto
  qed
  then obtain ident where f: "add_node_search (nodes ar) n 0 = Inl ident"
    by (cases "add_node_search (nodes ar) n 0") auto
  from add_node_search_found[OF f] add_node_search_first[OF f] f
  show "snd (add_node ar n) = ar" and "fst (add_node ar n) < length (nodes ar)"
    and "has_same_ex_as (nodes ar ! fst (add_node ar n)) n"
    and "\<forall>j < fst (add_node ar n). \<not> has_same_ex_as (nodes ar ! j) n"
    by (simp_all add: add_node_def)
qed

text \<open>
  C6. When some stored node holds the expression of the node passed to \<open>add_node\<close>
  (the same address, both nodes holding an expression), \<open>add_node\<close> leaves the archive as
  it is and returns the index of the first such node. After any sequence of calls of
  \<open>archive_ex\<close> and \<open>add_node\<close> on a new archive, and on any archive whose node table has
  at most one node per expression address, the node table has at most one node per
  expression address, in whichever order \<open>add_string\<close> atomizes its two strings.
\<close>

theorem add_node_deduplicates:
  "((\<exists>i < length (nodes ar). has_same_ex_as (nodes ar ! i) n) \<longrightarrow>
        snd (add_node ar n) = ar
      \<and> fst (add_node ar n) < length (nodes ar)
      \<and> has_same_ex_as (nodes ar ! fst (add_node ar n)) n
      \<and> (\<forall>j < fst (add_node ar n). \<not> has_same_ex_as (nodes ar ! j) n))
   \<and> one_node_per_ex (run_calls value_first empty_archive calls)
   \<and> (one_node_per_ex ar \<longrightarrow> one_node_per_ex (run_calls value_first ar calls))"
proof (intro conjI impI)
  show "one_node_per_ex (run_calls value_first empty_archive calls)"
    by (rule run_calls_keep) (simp add: one_node_per_ex_def empty_archive_def)
qed (simp_all add: add_node_reuses run_calls_keep)

theorem add_node_deduplicates_witness:
  "add_node \<lparr>atoms = [], exprs = [],
      nodes = [\<lparr>props = [], has_expression = True, node_e = \<lparr>bp = 7\<rparr>\<rparr>,
               \<lparr>props = [], has_expression = True, node_e = \<lparr>bp = 9\<rparr>\<rparr>]\<rparr>
     \<lparr>props = [], has_expression = True, node_e = \<lparr>bp = 9\<rparr>\<rparr>
   = (1, \<lparr>atoms = [], exprs = [],
      nodes = [\<lparr>props = [], has_expression = True, node_e = \<lparr>bp = 7\<rparr>\<rparr>,
               \<lparr>props = [], has_expression = True, node_e = \<lparr>bp = 9\<rparr>\<rparr>]\<rparr>)
   \<and> one_node_per_ex (run_calls False
        \<lparr>atoms = [], exprs = [],
         nodes = [\<lparr>props = [], has_expression = True, node_e = \<lparr>bp = 7\<rparr>\<rparr>,
               \<lparr>props = [], has_expression = True, node_e = \<lparr>bp = 9\<rparr>\<rparr>]\<rparr>
        [Call_archive_ex (Node 3 [Add_ex ''a'' (Node 7 []), Add_ex ''b'' (Node 7 [])]) ''e''])"
proof -
  let ?n7 = "\<lparr>props = [], has_expression = True, node_e = \<lparr>bp = 7\<rparr>\<rparr>"
  let ?n9 = "\<lparr>props = [], has_expression = True, node_e = \<lparr>bp = 9\<rparr>\<rparr>"
  let ?ar = "\<lparr>atoms = [], exprs = [], nodes = [?n7, ?n9]\<rparr>"
  let ?calls = "[Call_archive_ex (Node 3 [Add_ex ''a'' (Node 7 []), Add_ex ''b'' (Node 7 [])]) ''e'']"
  have ex: "\<exists>i < length (nodes ?ar). has_same_ex_as (nodes ?ar ! i) ?n9"
    by (rule exI[of _ 1]) (simp add: has_same_ex_as_def)
  have inv: "one_node_per_ex ?ar" by (simp add: one_node_per_ex_def)
  have idx: "fst (add_node ?ar ?n9) = 1"
    by (simp add: add_node_def has_same_ex_as_def)
  from add_node_deduplicates [of ?ar ?n9 False ?calls] ex inv idx
  show ?thesis by (simp add: prod_eq_iff)
qed

subsection \<open>The recursion limit\<close>

lemma push_back_each_error:
  "push_back_each f xs s = Inl err \<Longrightarrow> \<exists>x \<in> set xs. f x = Inl err"
proof (induction xs arbitrary: s)
  case Nil
  then show ?case by simp
next
  case (Cons x xs)
  then show ?case by (cases "f x") auto
qed

lemma push_back_each_result:
  "\<forall>x \<in> set xs. \<exists>y. f x = Inr y \<Longrightarrow> \<exists>r. push_back_each f xs s = Inr r"
proof (induction xs arbitrary: s)
  case Nil
  then show ?case by simp
next
  case (Cons x xs)
  then obtain y where "f x = Inr y" by auto
  with Cons show ?case by simp
qed

lemma push_back_each_length:
  "push_back_each f xs s = Inr r \<Longrightarrow> length r = length s + length xs"
proof (induction xs arbitrary: s)
  case Nil
  then show ?case by simp
next
  case (Cons x xs)
  then show ?case by (cases "f x") auto
qed

lemma matrix_eval_loop_error:
  "matrix_eval_loop ev v level idx m2 = Inl err \<Longrightarrow>
     (\<exists>x \<in> set v. ev x level = Inl err) \<or> (\<exists>msg. err = Undefined msg)"
proof (induction idx arbitrary: m2)
  case Nil
  then show ?case by simp
next
  case (Cons i rest')
  show ?case
  proof (cases "vec_at v i")
    case (Inl a)
    with Cons.prems show ?thesis by (auto simp add: vec_at_def split: if_splits)
  next
    case (Inr x)
    then have xin: "x \<in> set v" by (auto simp add: vec_at_def split: if_splits)
    show ?thesis
    proof (cases "ev x level")
      case (Inl a)
      with Cons.prems Inr xin show ?thesis by auto
    next
      case evx: (Inr y)
      show ?thesis
      proof (cases "vec_set m2 i y")
        case (Inl a)
        with Cons.prems Inr evx show ?thesis by (auto simp add: vec_set_def split: if_splits)
      next
        case (Inr m2')
        with Cons.prems \<open>vec_at v i = Inr x\<close> evx
        have "matrix_eval_loop ev v level rest' m2' = Inl err" by simp
        from Cons.IH[OF this] show ?thesis .
      qed
    qed
  qed
qed

text \<open>
  C5. With \<open>level\<close> equal to \<open>-max_recursion_level\<close>, \<open>eval\<close> and \<open>evalf\<close> of a container,
  the three helpers \<open>evalchildren\<close>, \<open>evalfchildren\<close> and \<open>normalchildren\<close>, and \<open>eval\<close> of a
  matrix throw a \<open>runtime_error\<close>. With a level strictly between that bound and 1 the
  level check throws nothing: an exception that leaves a helper is the exception of a
  child, the helper returns when every child does, and an exception that leaves \<open>eval\<close>
  of a matrix is the exception of an entry (or the vector is shorter than the matrix).
\<close>

theorem recursion_limit_is_fatal:
  "container_eval mrl ev seq (- int mrl) = Inl (Runtime_error ''max recursion level reached'')
   \<and> container_evalf mrl ev seq (- int mrl) = Inl (Runtime_error ''max recursion level reached'')
   \<and> evalchildren mrl ev seq (- int mrl) = Inl (Runtime_error ''max recursion level reached'')
   \<and> evalfchildren mrl ev seq (- int mrl) = Inl (Runtime_error ''max recursion level reached'')
   \<and> normalchildren mrl ev seq (- int mrl) = Inl (Runtime_error ''max recursion level reached'')
   \<and> matrix_eval mrl evm z M evaluated (- int mrl)
       = Inl (Runtime_error ''matrix::eval(): recursion limit exceeded'')
   \<and> (- int mrl < level \<and> level < 1 \<longrightarrow>
        (\<forall>err. evalchildren mrl ev seq level = Inl err \<or> evalfchildren mrl ev seq level = Inl err
               \<or> normalchildren mrl ev seq level = Inl err
               \<or> container_eval mrl ev seq level = Inl err
               \<or> container_evalf mrl ev seq level = Inl err
            \<longrightarrow> (\<exists>c \<in> set seq. ev c (level - 1) = Inl err))
      \<and> ((\<forall>c \<in> set seq. \<exists>c'. ev c (level - 1) = Inr c') \<longrightarrow>
            (\<exists>s. evalchildren mrl ev seq level = Inr s \<and> evalfchildren mrl ev seq level = Inr s
               \<and> normalchildren mrl ev seq level = Inr s
               \<and> container_eval mrl ev seq level = Inr (Return_new s)
               \<and> container_evalf mrl ev seq level = Inr (Return_new s)))
      \<and> (\<forall>err. matrix_eval mrl evm z M evaluated level = Inl err
            \<longrightarrow> (\<exists>x \<in> set (mvec M). evm x (level - 1) = Inl err) \<or> (\<exists>msg. err = Undefined msg)))"
proof -
  have neg: "- int mrl \<noteq> 1" by simp
  have fatal: "evalchildren mrl ev seq (- int mrl) = Inl (Runtime_error ''max recursion level reached'')"
    "evalfchildren mrl ev seq (- int mrl) = Inl (Runtime_error ''max recursion level reached'')"
    "normalchildren mrl ev seq (- int mrl) = Inl (Runtime_error ''max recursion level reached'')"
    using neg by (simp_all add: evalchildren_def evalfchildren_def normalchildren_def)
  have fatal_c: "container_eval mrl ev seq (- int mrl) = Inl (Runtime_error ''max recursion level reached'')"
    "container_evalf mrl ev seq (- int mrl) = Inl (Runtime_error ''max recursion level reached'')"
    using neg fatal by (simp_all add: container_eval_def container_evalf_def on_success_def)
  have fatal_m: "matrix_eval mrl evm z M evaluated (- int mrl)
       = Inl (Runtime_error ''matrix::eval(): recursion limit exceeded'')"
    using neg by (simp add: matrix_eval_def)
  have between: "(\<forall>err. evalchildren mrl ev seq level = Inl err \<or> evalfchildren mrl ev seq level = Inl err
               \<or> normalchildren mrl ev seq level = Inl err
               \<or> container_eval mrl ev seq level = Inl err
               \<or> container_evalf mrl ev seq level = Inl err
            \<longrightarrow> (\<exists>c \<in> set seq. ev c (level - 1) = Inl err))
      \<and> ((\<forall>c \<in> set seq. \<exists>c'. ev c (level - 1) = Inr c') \<longrightarrow>
            (\<exists>s. evalchildren mrl ev seq level = Inr s \<and> evalfchildren mrl ev seq level = Inr s
               \<and> normalchildren mrl ev seq level = Inr s
               \<and> container_eval mrl ev seq level = Inr (Return_new s)
               \<and> container_evalf mrl ev seq level = Inr (Return_new s)))
      \<and> (\<forall>err. matrix_eval mrl evm z M evaluated level = Inl err
            \<longrightarrow> (\<exists>x \<in> set (mvec M). evm x (level - 1) = Inl err) \<or> (\<exists>msg. err = Undefined msg))"
    if lv: "- int mrl < level \<and> level < 1"
  proof -
    let ?f = "\<lambda>it. ev it (level - 1)"
    from lv have l1: "level \<noteq> 1" and l2: "level \<noteq> - int mrl" by auto
    have h: "evalchildren mrl ev seq level = push_back_each ?f seq []"
      "evalfchildren mrl ev seq level = push_back_each ?f seq []"
      "normalchildren mrl ev seq level = push_back_each ?f seq []"
      using l1 l2 by (simp_all add: evalchildren_def evalfchildren_def normalchildren_def)
    have c: "container_eval mrl ev seq level
               = on_success (push_back_each ?f seq []) (\<lambda>s. Inr (Return_new s))"
      "container_evalf mrl ev seq level
               = on_success (push_back_each ?f seq []) (\<lambda>s. Inr (Return_new s))"
      using l1 h by (simp_all add: container_eval_def container_evalf_def)
    have e1: "\<exists>c \<in> set seq. ev c (level - 1) = Inl err"
      if "evalchildren mrl ev seq level = Inl err \<or> evalfchildren mrl ev seq level = Inl err
               \<or> normalchildren mrl ev seq level = Inl err
               \<or> container_eval mrl ev seq level = Inl err
               \<or> container_evalf mrl ev seq level = Inl err" for err
    proof -
      from that have "push_back_each ?f seq [] = Inl err"
        unfolding h c by (cases "push_back_each ?f seq []") (auto simp add: on_success_def)
      then show ?thesis by (rule push_back_each_error)
    qed
    have e2: "\<exists>s. evalchildren mrl ev seq level = Inr s \<and> evalfchildren mrl ev seq level = Inr s
               \<and> normalchildren mrl ev seq level = Inr s
               \<and> container_eval mrl ev seq level = Inr (Return_new s)
               \<and> container_evalf mrl ev seq level = Inr (Return_new s)"
      if "\<forall>c \<in> set seq. \<exists>c'. ev c (level - 1) = Inr c'"
    proof -
      from push_back_each_result[of seq ?f "[]"] that
      obtain r where "push_back_each ?f seq [] = Inr r" by blast
      then show ?thesis unfolding h c by (simp add: on_success_def)
    qed
    have e3: "(\<exists>x \<in> set (mvec M). evm x (level - 1) = Inl err) \<or> (\<exists>msg. err = Undefined msg)"
      if "matrix_eval mrl evm z M evaluated level = Inl err" for err
    proof -
      let ?loop = "matrix_eval_loop evm (mvec M) (level - 1) (matrix_indices M)
                (replicate (nat (row M * col M)) z)"
      from that l1 l2 have "on_success ?loop (\<lambda>m2. Inr (\<lparr>row = row M, col = col M, mvec = m2\<rparr>, True))
          = Inl err"
        by (simp add: matrix_eval_def)
      then have "?loop = Inl err" by (cases ?loop) (auto simp add: on_success_def)
      then show ?thesis by (rule matrix_eval_loop_error)
    qed
    show ?thesis using e1 e2 e3 by blast
  qed
  show ?thesis using fatal fatal_c fatal_m between by blast
qed


theorem recursion_limit_is_fatal_witness:
  "evalchildren 3 (\<lambda>c l. Inr c) [\<lparr>bp = 1\<rparr>] (- 3) = Inl (Runtime_error ''max recursion level reached'')
   \<and> matrix_eval 3 (\<lambda>c l. Inr c) \<lparr>bp = 0\<rparr> \<lparr>row = 1, col = 1, mvec = [\<lparr>bp = 1\<rparr>]\<rparr> False (- 3)
       = Inl (Runtime_error ''matrix::eval(): recursion limit exceeded'')
   \<and> (\<exists>s. evalchildren 3 (\<lambda>c l. Inr c) [\<lparr>bp = 1\<rparr>] (- 1) = Inr s
          \<and> container_eval 3 (\<lambda>c l. Inr c) [\<lparr>bp = 1\<rparr>] (- 1) = Inr (Return_new s))"
  using recursion_limit_is_fatal [of 3 "\<lambda>c l. Inr c" "[\<lparr>bp = 1\<rparr>]" "\<lambda>c l. Inr c" "\<lparr>bp = 0\<rparr>"
          "\<lparr>row = 1, col = 1, mvec = [\<lparr>bp = 1\<rparr>]\<rparr>" False "- 1"]
  by simp blast

subsection \<open>Substitution in a container\<close>

lemma subschildren_loop_None:
  "subschildren_loop teq f before cs = Inr None \<longleftrightarrow>
     (\<forall>c \<in> set cs. \<exists>c'. f c = Inr c' \<and> teq c c')"
proof (induction cs arbitrary: before)
  case Nil
  then show ?case by simp
next
  case (Cons c cs)
  show ?case
  proof (cases "f c")
    case (Inl a)
    then show ?thesis by simp
  next
    case (Inr c')
    show ?thesis
    proof (cases "teq c c'")
      case True
      with Inr Cons.IH[of "before @ [c]"] show ?thesis by simp
    next
      case False
      with Inr show ?thesis
        by (cases "push_back_each f cs (before @ [c'])") auto
    qed
  qed
qed

lemma subschildren_loop_Some:
  "subschildren_loop teq f before cs = Inr (Some v) \<Longrightarrow>
     (\<exists>c \<in> set cs. \<exists>c'. f c = Inr c' \<and> \<not> teq c c') \<and> length v = length before + length cs"
proof (induction cs arbitrary: before)
  case Nil
  then show ?case by simp
next
  case (Cons c cs)
  show ?case
  proof (cases "f c")
    case (Inl a)
    with Cons.prems show ?thesis by simp
  next
    case (Inr c')
    show ?thesis
    proof (cases "teq c c'")
      case True
      with Inr Cons.prems have "subschildren_loop teq f (before @ [c]) cs = Inr (Some v)" by simp
      from Cons.IH[OF this] show ?thesis by auto
    next
      case False
      with Inr Cons.prems have "push_back_each f cs (before @ [c']) = Inr v"
        by (cases "push_back_each f cs (before @ [c'])") auto
      from push_back_each_length[OF this] Inr False show ?thesis by auto
    qed
  qed
qed

text \<open>
  C9. \<open>subs\<close> of a container returns \<open>*this\<close> when \<open>subschildren\<close> returns the null pointer,
  and that is the case exactly when \<open>subs\<close> of every child returns a handle trivially
  equal to the child; a new container is returned only when \<open>subs\<close> of some child returned
  a handle that is not trivially equal to the child, and it has as many children as the
  original. This holds for all substitution lists, of equal length or not.
\<close>

theorem subs_keeps_unchanged_container:
  "(subschildren teq sb seq ls lr = Inr None \<longrightarrow> container_subs teq sb seq ls lr = Inr Return_this)
   \<and> (container_subs teq sb seq ls lr = Inr Return_this
        \<longleftrightarrow> (\<forall>c \<in> set seq. \<exists>c'. sb ls lr c = Inr c' \<and> teq c c'))
   \<and> (container_subs teq sb seq ls lr = Inr (Return_new v) \<longrightarrow>
        (\<exists>c \<in> set seq. \<exists>c'. sb ls lr c = Inr c' \<and> \<not> teq c c') \<and> length v = length seq)"
proof -
  have a: "container_subs teq sb seq ls lr = Inr Return_this
      \<longleftrightarrow> subschildren teq sb seq ls lr = Inr None"
    by (cases "subschildren teq sb seq ls lr")
      (auto simp add: container_subs_def split: option.splits)
  have b: "subschildren teq sb seq ls lr = Inr None
      \<longleftrightarrow> (\<forall>c \<in> set seq. \<exists>c'. sb ls lr c = Inr c' \<and> teq c c')"
    by (simp add: subschildren_def subschildren_loop_None)
  have c: "(\<exists>c \<in> set seq. \<exists>c'. sb ls lr c = Inr c' \<and> \<not> teq c c') \<and> length v = length seq"
    if "container_subs teq sb seq ls lr = Inr (Return_new v)"
  proof -
    from that have "subschildren_loop teq (sb ls lr) [] seq = Inr (Some v)"
      by (cases "subschildren teq sb seq ls lr")
        (auto simp add: container_subs_def subschildren_def split: option.splits)
    from subschildren_loop_Some[OF this] show ?thesis by simp
  qed
  show ?thesis using a b c by blast
qed

theorem subs_keeps_unchanged_container_witness:
  "container_subs (\<lambda>a b. bp a = bp b) (\<lambda>ls lr c. Inr c) [\<lparr>bp = 1\<rparr>, \<lparr>bp = 2\<rparr>] [\<lparr>bp = 1\<rparr>] [\<lparr>bp = 5\<rparr>]
     = Inr Return_this
   \<and> container_subs (\<lambda>a b. bp a = bp b) (\<lambda>ls lr c. if c = \<lparr>bp = 2\<rparr> then Inr \<lparr>bp = 5\<rparr> else Inr c)
       [\<lparr>bp = 1\<rparr>, \<lparr>bp = 2\<rparr>] [\<lparr>bp = 2\<rparr>] [\<lparr>bp = 5\<rparr>]
     = Inr (Return_new [\<lparr>bp = 1\<rparr>, \<lparr>bp = 5\<rparr>])
   \<and> length [\<lparr>bp = 1\<rparr>, \<lparr>bp = 5\<rparr>] = length [\<lparr>bp = 1\<rparr>, \<lparr>bp = 2\<rparr>]"
proof -
  have new: "container_subs (\<lambda>a b. bp a = bp b)
       (\<lambda>ls lr c. if c = \<lparr>bp = 2\<rparr> then Inr \<lparr>bp = 5\<rparr> else Inr c)
       [\<lparr>bp = 1\<rparr>, \<lparr>bp = 2\<rparr>] [\<lparr>bp = 2\<rparr>] [\<lparr>bp = 5\<rparr>]
     = Inr (Return_new [\<lparr>bp = 1\<rparr>, \<lparr>bp = 5\<rparr>])"
    by (simp add: container_subs_def subschildren_def)
  from subs_keeps_unchanged_container [of "\<lambda>a b. bp a = bp b" "\<lambda>ls lr c. Inr c"
          "[\<lparr>bp = 1\<rparr>, \<lparr>bp = 2\<rparr>]" "[\<lparr>bp = 1\<rparr>]" "[\<lparr>bp = 5\<rparr>]" "[]"]
       subs_keeps_unchanged_container [of "\<lambda>a b. bp a = bp b"
          "\<lambda>ls lr c. if c = \<lparr>bp = 2\<rparr> then Inr \<lparr>bp = 5\<rparr> else Inr c"
          "[\<lparr>bp = 1\<rparr>, \<lparr>bp = 2\<rparr>]" "[\<lparr>bp = 2\<rparr>]" "[\<lparr>bp = 5\<rparr>]" "[\<lparr>bp = 1\<rparr>, \<lparr>bp = 5\<rparr>]"]
       new
  show ?thesis by simp
qed

subsection \<open>Parentheses in the default output\<close>

text \<open>
  C8. For each of \<open>power::print\<close>, \<open>expairseq::printseq\<close>, \<open>relational::print\<close>,
  \<open>add::print\<close> and \<open>mul::print\<close> there is a text, the same for every context, such that
  the output is that text between \<open>(\<close> and \<open>)\<close> when the precedence of the node is
  less than or equal to the precedence of the context, and that text alone otherwise.
  \<open>expairseq::printseq\<close> prints so for every sequence that is not empty; for the empty
  sequence it is undefined, in every context.
\<close>

theorem parentheses_iff_precedence:
  "(\<exists>body. \<forall>u. power_print p pr basis exponent u
        = (if p \<le> u then ''('' @ body @ '')'' else body))
   \<and> (ps \<noteq> [] \<longrightarrow>
        (\<exists>body. \<forall>u. expairseq_printseq pp ie pr d ps oc delim p u
           = Inr (if p \<le> u then ''('' @ body @ '')'' else body)))
   \<and> (\<forall>u. expairseq_printseq pp ie pr d [] oc delim p u
        = Inl (Undefined ''decrement of the begin iterator''))
   \<and> (\<exists>body. \<forall>u. relational_print p pr lh o_op rh u
        = (if p \<le> u then ''('' @ body @ '')'' else body))
   \<and> (\<exists>body. \<forall>u. add_print p gt eq ne iz pr ps oc u
        = (if p \<le> u then ''('' @ body @ '')'' else body))
   \<and> (\<exists>body. \<forall>u. mul_print p one rc pr ps oc u
        = (if p \<le> u then ''('' @ body @ '')'' else body))"
proof (intro conjI)
  show "\<exists>body. \<forall>u. power_print p pr basis exponent u
        = (if p \<le> u then ''('' @ body @ '')'' else body)"
    by (rule exI[of _ "pr basis p @ ''^'' @ pr exponent p"]) (simp add: power_print_def)
  show "ps \<noteq> [] \<longrightarrow>
        (\<exists>body. \<forall>u. expairseq_printseq pp ie pr d ps oc delim p u
           = Inr (if p \<le> u then ''('' @ body @ '')'' else body))"
  proof
    assume "ps \<noteq> []"
    then show "\<exists>body. \<forall>u. expairseq_printseq pp ie pr d ps oc delim p u
           = Inr (if p \<le> u then ''('' @ body @ '')'' else body)"
      by (intro exI[of _ "printseq_loop pp delim p ps @ pp (last ps) p
             @ (if \<not> ie oc d then [delim] @ pr oc 0 else [])"])
        (simp add: expairseq_printseq_def)
  qed
  show "\<forall>u. expairseq_printseq pp ie pr d [] oc delim p u
        = Inl (Undefined ''decrement of the begin iterator'')"
    by (simp add: expairseq_printseq_def)
  show "\<exists>body. \<forall>u. relational_print p pr lh o_op rh u
        = (if p \<le> u then ''('' @ body @ '')'' else body)"
    by (rule exI[of _ "pr lh p @ operator_text o_op @ pr rh p"]) (simp add: relational_print_def)
  show "\<exists>body. \<forall>u. add_print p gt eq ne iz pr ps oc u
        = (if p \<le> u then ''('' @ body @ '')'' else body)"
    by (rule exI[of _ "add_print_loop p gt eq ne pr ps True
          @ (if \<not> iz oc then (if gt oc 0 then ''+'' else []) @ pr oc 0 else [])"])
      (simp add: add_print_def)
  show "\<exists>body. \<forall>u. mul_print p one rc pr ps oc u
        = (if p \<le> u then ''('' @ body @ '')'' else body)"
    by (rule exI[of _ "(if \<not> one oc then pr oc p else []) @ mul_print_loop p rc pr ps (one oc)"])
      (simp add: mul_print_def)
qed


theorem parentheses_iff_precedence_witness:
  "power_print 60 (\<lambda>x u. x) ''x'' ''2'' 50 = ''x^2''
   \<and> power_print 60 (\<lambda>x u. x) ''x'' ''2'' 70 = ''(x^2)''
   \<and> expairseq_printseq (\<lambda>q u. rest q) (=) (\<lambda>x u. x) ''1''
        [\<lparr>rest = ''a'', coeff = ''1''\<rparr>, \<lparr>rest = ''b'', coeff = ''3''\<rparr>] ''2'' CHR '','' 60 50
       = Inr ''a,b,2''
   \<and> expairseq_printseq (\<lambda>q u. rest q) (=) (\<lambda>x u. x) ''1''
        [\<lparr>rest = ''a'', coeff = ''1''\<rparr>, \<lparr>rest = ''b'', coeff = ''3''\<rparr>] ''2'' CHR '','' 60 60
       = Inr ''(a,b,2)''
   \<and> relational_print 60 (\<lambda>x u. x) ''x'' op_less ''y'' 50 = ''x<y''
   \<and> relational_print 60 (\<lambda>x u. x) ''x'' op_less ''y'' 70 = ''(x<y)''
   \<and> add_print 60 (\<lambda>x n. True) (\<lambda>x n. False) (\<lambda>x n. x \<noteq> ''1'') (\<lambda>x. False) (\<lambda>x u. x)
        [\<lparr>rest = ''a'', coeff = ''1''\<rparr>, \<lparr>rest = ''b'', coeff = ''3''\<rparr>] ''2'' 50 = ''a+3*b+2''
   \<and> add_print 60 (\<lambda>x n. True) (\<lambda>x n. False) (\<lambda>x n. x \<noteq> ''1'') (\<lambda>x. False) (\<lambda>x u. x)
        [\<lparr>rest = ''a'', coeff = ''1''\<rparr>, \<lparr>rest = ''b'', coeff = ''3''\<rparr>] ''2'' 70 = ''(a+3*b+2)''
   \<and> mul_print 60 (\<lambda>x. x = ''1'') rest (\<lambda>x u. x)
        [\<lparr>rest = ''a'', coeff = ''1''\<rparr>, \<lparr>rest = ''b'', coeff = ''3''\<rparr>] ''2'' 50 = ''2*a*b''
   \<and> mul_print 60 (\<lambda>x. x = ''1'') rest (\<lambda>x u. x)
        [\<lparr>rest = ''a'', coeff = ''1''\<rparr>, \<lparr>rest = ''b'', coeff = ''3''\<rparr>] ''2'' 60 = ''(2*a*b)''
   \<and> expairseq_printseq (\<lambda>q u. rest q) (=) (\<lambda>x u. x) ''1'' [] ''2'' CHR '','' 60 50
       = Inl (Undefined ''decrement of the begin iterator'')"
proof -
  let ?pr = "\<lambda>(x :: string) (u :: nat). x"
  let ?ps = "[\<lparr>rest = ''a'', coeff = ''1''\<rparr>, \<lparr>rest = ''b'', coeff = ''3''\<rparr>]"
  note t = parentheses_iff_precedence [where p = 60 and pr = ?pr and basis = "''x''"
      and exponent = "''2''" and ps = ?ps and pp = "\<lambda>q u. rest q" and ie = "(=)" and d = "''1''"
      and oc = "''2''" and delim = "CHR '',''" and lh = "''x''" and o_op = op_less and rh = "''y''"
      and gt = "\<lambda>x n. True" and eq = "\<lambda>x n. False" and ne = "\<lambda>x n. x \<noteq> ''1''"
      and iz = "\<lambda>x. False" and one = "\<lambda>x. x = ''1''" and rc = rest]
  from t obtain b1 where b1: "\<forall>u. power_print 60 ?pr ''x'' ''2'' u
        = (if 60 \<le> u then ''('' @ b1 @ '')'' else b1)"
    by blast
  from t obtain b2 where b2: "\<forall>u. expairseq_printseq (\<lambda>q u. rest q) (=) ?pr ''1'' ?ps ''2''
        CHR '','' 60 u = Inr (if 60 \<le> u then ''('' @ b2 @ '')'' else b2)"
    by blast
  from t obtain b3 where b3: "\<forall>u. relational_print 60 ?pr ''x'' op_less ''y'' u
        = (if 60 \<le> u then ''('' @ b3 @ '')'' else b3)"
    by blast
  from t obtain b4 where b4: "\<forall>u. add_print 60 (\<lambda>x n. True) (\<lambda>x n. False)
        (\<lambda>x n. x \<noteq> ''1'') (\<lambda>x. False) ?pr ?ps ''2'' u
        = (if 60 \<le> u then ''('' @ b4 @ '')'' else b4)"
    by blast
  from t obtain b5 where b5: "\<forall>u. mul_print 60 (\<lambda>x. x = ''1'') rest ?pr ?ps ''2'' u
        = (if 60 \<le> u then ''('' @ b5 @ '')'' else b5)"
    by blast
  from t have b6: "\<forall>u. expairseq_printseq (\<lambda>q u. rest q) (=) ?pr ''1'' [] ''2''
        CHR '','' 60 u = Inl (Undefined ''decrement of the begin iterator'')"
    by blast
  have "b1 = ''x^2''"
    using b1 [rule_format, of 50] by (simp add: power_print_def)
  moreover have "b2 = ''a,b,2''"
    using b2 [rule_format, of 50] by (simp add: expairseq_printseq_def)
  moreover have "b3 = ''x<y''"
    using b3 [rule_format, of 50] by (simp add: relational_print_def)
  moreover have "b4 = ''a+3*b+2''"
    using b4 [rule_format, of 50] by (simp add: add_print_def)
  moreover have "b5 = ''2*a*b''"
    using b5 [rule_format, of 50] by (simp add: mul_print_def)
  ultimately show ?thesis
    using b1 [rule_format, of 50] b1 [rule_format, of 70]
      b2 [rule_format, of 50] b2 [rule_format, of 60]
      b3 [rule_format, of 50] b3 [rule_format, of 70]
      b4 [rule_format, of 50] b4 [rule_format, of 70]
      b5 [rule_format, of 50] b5 [rule_format, of 60]
      b6 [rule_format, of 50]
    by simp
qed

subsection \<open>The determinant of a 3 by 3 matrix of symbols\<close>

lemma canonical_Nil: "(\<And>m. coefficient ts m = 0) \<Longrightarrow> canonical ts = []"
  by (simp add: canonical_def filter_empty_conv)

lemma normal_zero:
  "terms_of x = Some ts \<Longrightarrow> (\<And>m. coefficient ts m = 0) \<Longrightarrow> normal x = Numeric 0"
  by (simp add: normal_def canonical_Nil)

lemma canonical_cong:
  assumes "set (map (\<lambda>(c, n). sorted_symbols n) ts) = set (map (\<lambda>(c, n). sorted_symbols n) us)"
    and "\<And>m. coefficient ts m = coefficient us m"
  shows "canonical ts = canonical us"
proof -
  have "sort (remdups (map (\<lambda>(c, n). sorted_symbols n) ts))
      = sort (remdups (map (\<lambda>(c, n). sorted_symbols n) us))"
    using assms(1) by (metis sorted_list_of_set_sort_remdups)
  then show ?thesis
    unfolding canonical_def using assms(2) by simp
qed

lemma coefficient_append: "coefficient (ts @ us) m = coefficient ts m + coefficient us m"
  by (simp add: coefficient_def)

lemma coefficient_negated:
  "coefficient (map (\<lambda>(d, n). (- d, n)) us) m = - coefficient us m"
  by (induction us) (auto simp add: coefficient_def)

lemma normal_difference:
  assumes "terms_of x = Some ts" and "terms_of y = Some us"
    and "\<And>m. coefficient ts m = coefficient us m"
    and "\<And>c. x \<noteq> Numeric c" and "\<And>c. y \<noteq> Numeric c"
  shows "normal (poly_sub x y) = Numeric 0"
proof -
  have neg: "poly_neg y = Mul (Numeric (- 1)) y"
    using assms(5) by (cases y) (auto simp add: poly_neg_def poly_mul_def)
  have sub: "poly_sub x y = Add x (Mul (Numeric (- 1)) y)"
    using assms(4) by (cases x) (auto simp add: poly_sub_def neg poly_add_def)
  have "terms_of (poly_sub x y) = Some (ts @ map (\<lambda>(d, n). (- d, n)) us)"
    by (simp add: sub assms(1,2) case_prod_unfold)
  moreover have "coefficient (ts @ map (\<lambda>(d, n). (- d, n)) us) m = 0" for m
    by (simp add: coefficient_append coefficient_negated assms(3))
  ultimately show ?thesis
    by (rule normal_zero)
qed

lemma normal_cong:
  assumes "terms_of x = Some ts" and "terms_of y = Some us"
    and "set (map (\<lambda>(c, n). sorted_symbols n) ts) = set (map (\<lambda>(c, n). sorted_symbols n) us)"
    and "\<And>m. coefficient ts m = coefficient us m"
  shows "normal x = normal y"
  using assms by (simp add: normal_def canonical_cong [of ts us])

lemma next_permutation_3:
  "next_permutation [0, 1, 2] = (True, [0, 2, 1])"
  "next_permutation [0, 2, 1] = (True, [1, 0, 2])"
  "next_permutation [1, 0, 2] = (True, [1, 2, 0])"
  "next_permutation [1, 2, 0] = (True, [2, 0, 1])"
  "next_permutation [2, 0, 1] = (True, [2, 1, 0])"
  "next_permutation [2, 1, 0] = (False, [0, 1, 2])"
  by code_simp+

lemma permutation_sign_3:
  "permutation_sign [0, 1, 2] = 1"
  "permutation_sign [0, 2, 1] = - 1"
  "permutation_sign [1, 0, 2] = - 1"
  "permutation_sign [1, 2, 0] = 1"
  "permutation_sign [2, 0, 1] = 1"
  "permutation_sign [2, 1, 0] = - 1"
  by code_simp+

lemma poly_mul_simps [simp]:
  "poly_mul (Symbol a) (Symbol b) = Mul (Symbol a) (Symbol b)"
  "poly_mul (Symbol a) (Mul x y) = Mul (Symbol a) (Mul x y)"
  "poly_mul (Mul x y) (Symbol a) = Mul (Mul x y) (Symbol a)"
  "poly_mul (Add x y) (Symbol a) = Mul (Add x y) (Symbol a)"
  "poly_mul (Numeric 1) (Mul x y) = Mul x y"
  "poly_mul (Numeric (- 1)) (Mul x y) = Mul (Numeric (- 1)) (Mul x y)"
  "poly_mul (Numeric (- 1)) (Add x y) = Mul (Numeric (- 1)) (Add x y)"
  by (simp_all add: poly_mul_def)

lemma poly_add_simps [simp]:
  "poly_add (Numeric 0) (Mul x y) = Mul x y"
  "poly_add (Mul x y) (Mul u v) = Add (Mul x y) (Mul u v)"
  "poly_add (Add x y) (Mul u v) = Add (Add x y) (Mul u v)"
  by (simp_all add: poly_add_def)

lemma poly_ops_sel [simp]:
  "ex_add poly_ops = poly_add" "ex_sub poly_ops = poly_sub" "ex_mul poly_ops = poly_mul"
  "ex_neg poly_ops = poly_neg" "ex_normal poly_ops = (\<lambda>x. Inr (normal x))"
  by (simp_all add: poly_ops_def)

lemma minor3:
  "determinant_symbolic_minor poly_ops
      \<lparr>row = 3, col = 3, mvec = map Symbol [s0, s1, s2, s3, s4, s5, s6, s7, s8]\<rparr>
    = Inr (Add (Add (Mul (Add (Mul (Symbol s7) (Symbol s2))
                      (Mul (Numeric (- 1)) (Mul (Symbol s8) (Symbol s1))))
                 (Symbol s3))
            (Mul (Add (Mul (Symbol s5) (Symbol s1))
                   (Mul (Numeric (- 1)) (Mul (Symbol s4) (Symbol s2))))
              (Symbol s6)))
       (Mul (Add (Mul (Symbol s8) (Symbol s4))
              (Mul (Numeric (- 1)) (Mul (Symbol s7) (Symbol s5))))
         (Symbol s0)))"
  by (simp add: determinant_symbolic_minor.simps matrix_call_def vec_at_def poly_sub_def poly_neg_def)


lemma upto_3: "[0 .. 2] = [0, 1, (2::int)]" "[1 .. 2] = [1, (2::int)]"
  by (simp_all add: upto.simps)


lemma perm3:
  "determinant_symbolic_perm poly_ops
      \<lparr>row = 3, col = 3, mvec = map Symbol [s0, s1, s2, s3, s4, s5, s6, s7, s8]\<rparr>
    = Some (Inr
       (Add (Add (Add (Add (Add (Mul (Mul (Symbol s0) (Symbol s4)) (Symbol s8))
                          (Mul (Numeric (- 1))
                            (Mul (Mul (Symbol s0) (Symbol s7)) (Symbol s5))))
                     (Mul (Numeric (- 1))
                       (Mul (Mul (Symbol s3) (Symbol s1)) (Symbol s8))))
                (Mul (Mul (Symbol s3) (Symbol s7)) (Symbol s2)))
           (Mul (Mul (Symbol s6) (Symbol s1)) (Symbol s5)))
      (Mul (Numeric (- 1)) (Mul (Mul (Symbol s6) (Symbol s4)) (Symbol s2)))))"
  unfolding determinant_symbolic_perm_def
  apply (simp add: upto_3)
  apply (subst determinant_symbolic_perm_loop.simps)
  apply (simp add: upto_3 matrix_call_def vec_at_def next_permutation_3 permutation_sign_3)
  apply (subst determinant_symbolic_perm_loop.simps)
  apply (simp add: upto_3 matrix_call_def vec_at_def next_permutation_3 permutation_sign_3)
  apply (subst determinant_symbolic_perm_loop.simps)
  apply (simp add: upto_3 matrix_call_def vec_at_def next_permutation_3 permutation_sign_3)
  apply (subst determinant_symbolic_perm_loop.simps)
  apply (simp add: upto_3 matrix_call_def vec_at_def next_permutation_3 permutation_sign_3)
  apply (subst determinant_symbolic_perm_loop.simps)
  apply (simp add: upto_3 matrix_call_def vec_at_def next_permutation_3 permutation_sign_3)
  apply (subst determinant_symbolic_perm_loop.simps)
  apply (simp add: upto_3 matrix_call_def vec_at_def next_permutation_3 permutation_sign_3)
  done

lemma leibniz3_symbols:
  "leibniz3 poly_ops (\<lambda>i j. Symbol ([s0, s1, s2, s3, s4, s5, s6, s7, s8] ! (3 * i + j)))
    = Add (Add (Add (Mul (Mul (Symbol s0) (Symbol s4)) (Symbol s8))
                    (Mul (Mul (Symbol s3) (Symbol s7)) (Symbol s2)))
               (Mul (Mul (Symbol s6) (Symbol s1)) (Symbol s5)))
          (Mul (Numeric (- 1))
             (Add (Add (Mul (Mul (Symbol s6) (Symbol s4)) (Symbol s2))
                       (Mul (Mul (Symbol s3) (Symbol s1)) (Symbol s8)))
                  (Mul (Mul (Symbol s0) (Symbol s7)) (Symbol s5))))"
  by (simp add: leibniz3_def poly_add_def poly_neg_def)

lemma list_of_length_9:
  assumes "length ss = 9"
  obtains s0 s1 s2 s3 s4 s5 s6 s7 s8 :: 'a where "ss = [s0, s1, s2, s3, s4, s5, s6, s7, s8]"
  using assms by (auto simp add: eval_nat_numeral length_Suc_conv)



lemma determinant3_normal_forms:
  fixes s0 s1 s2 s3 s4 s5 s6 s7 s8 :: nat
  defines "dm \<equiv>
    Add (Add (Mul (Add (Mul (Symbol s7) (Symbol s2))
                      (Mul (Numeric (- 1)) (Mul (Symbol s8) (Symbol s1))))
                 (Symbol s3))
            (Mul (Add (Mul (Symbol s5) (Symbol s1))
                   (Mul (Numeric (- 1)) (Mul (Symbol s4) (Symbol s2))))
              (Symbol s6)))
       (Mul (Add (Mul (Symbol s8) (Symbol s4))
              (Mul (Numeric (- 1)) (Mul (Symbol s7) (Symbol s5))))
         (Symbol s0))"
    and "dp \<equiv>
    Add (Add (Add (Add (Add (Mul (Mul (Symbol s0) (Symbol s4)) (Symbol s8))
                          (Mul (Numeric (- 1))
                            (Mul (Mul (Symbol s0) (Symbol s7)) (Symbol s5))))
                     (Mul (Numeric (- 1))
                       (Mul (Mul (Symbol s3) (Symbol s1)) (Symbol s8))))
                (Mul (Mul (Symbol s3) (Symbol s7)) (Symbol s2)))
           (Mul (Mul (Symbol s6) (Symbol s1)) (Symbol s5)))
      (Mul (Numeric (- 1)) (Mul (Mul (Symbol s6) (Symbol s4)) (Symbol s2)))"
    and "lz \<equiv>
    Add (Add (Add (Mul (Mul (Symbol s0) (Symbol s4)) (Symbol s8))
                    (Mul (Mul (Symbol s3) (Symbol s7)) (Symbol s2)))
               (Mul (Mul (Symbol s6) (Symbol s1)) (Symbol s5)))
          (Mul (Numeric (- 1))
             (Add (Add (Mul (Mul (Symbol s6) (Symbol s4)) (Symbol s2))
                       (Mul (Mul (Symbol s3) (Symbol s1)) (Symbol s8)))
                  (Mul (Mul (Symbol s0) (Symbol s7)) (Symbol s5))))"
  shows "normal dm = normal dp" and "normal dm = normal lz" and "normal dp = normal lz"
    and "normal (poly_sub dm dp) = Numeric 0"
    and "normal (poly_sub dm lz) = Numeric 0"
    and "normal (poly_sub dp lz) = Numeric 0"
proof -
  define key where "key = (\<lambda>m :: nat multiset. sorted_list_of_multiset m)"
  have key: "sorted_symbols n = key (mset n)" for n
    by (simp add: key_def sorted_symbols_def sorted_list_of_multiset_mset)
  define tm where "tm = [(1 :: rat, [s7, s2, s3]), (- 1, [s8, s1, s3]), (1, [s5, s1, s6]),
           (- 1, [s4, s2, s6]), (1, [s8, s4, s0]), (- 1, [s7, s5, s0])]"
  define tp where "tp = [(1 :: rat, [s0, s4, s8]), (- 1, [s0, s7, s5]), (- 1, [s3, s1, s8]),
           (1, [s3, s7, s2]), (1, [s6, s1, s5]), (- 1, [s6, s4, s2])]"
  define tl where "tl = [(1 :: rat, [s0, s4, s8]), (1, [s3, s7, s2]), (1, [s6, s1, s5]),
           (- 1, [s6, s4, s2]), (- 1, [s3, s1, s8]), (- 1, [s0, s7, s5])]"
  have tm: "terms_of dm = Some tm" by (simp add: dm_def tm_def)
  have tp: "terms_of dp = Some tp" by (simp add: dp_def tp_def)
  have tl: "terms_of lz = Some tl" by (simp add: lz_def tl_def)
  have set_mp: "set (map (\<lambda>(c, n). sorted_symbols n) tm) = set (map (\<lambda>(c, n). sorted_symbols n) tp)"
    by (simp add: tm_def tp_def key add_mset_commute insert_commute)
  have set_pl: "set (map (\<lambda>(c, n). sorted_symbols n) tp) = set (map (\<lambda>(c, n). sorted_symbols n) tl)"
    by (simp add: tp_def tl_def key add_mset_commute insert_commute)
  have co_mp: "coefficient tm m = coefficient tp m" for m
    by (simp add: tm_def tp_def coefficient_def key add_mset_commute)
  have co_pl: "coefficient tp m = coefficient tl m" for m
    by (simp add: tp_def tl_def coefficient_def key add_mset_commute)
  have nn: "dm \<noteq> Numeric c" "dp \<noteq> Numeric c" "lz \<noteq> Numeric c" for c
    by (simp_all add: dm_def dp_def lz_def)
  show mp: "normal dm = normal dp"
    using tm tp set_mp co_mp by (rule normal_cong)
  show pl: "normal dp = normal lz"
    using tp tl set_pl co_pl by (rule normal_cong)
  show "normal dm = normal lz"
    using mp pl by simp
  show "normal (poly_sub dm dp) = Numeric 0"
    using tm tp co_mp nn(1) nn(2) by (rule normal_difference)
  show "normal (poly_sub dp lz) = Numeric 0"
    using tp tl co_pl nn(2) nn(3) by (rule normal_difference)
  have "coefficient tm m = coefficient tl m" for m
    by (simp add: co_mp co_pl)
  with tm tl show "normal (poly_sub dm lz) = Numeric 0"
    using nn(1) nn(3) by (rule normal_difference)
qed

lemma determinant_symbols:
  "determinant poly_ops \<lparr>row = 3, col = 3, mvec = map Symbol [s0, s1, s2, s3, s4, s5, s6, s7, s8]\<rparr> normalized
    = (if normalized
       then Some (on_success (determinant_symbolic_minor poly_ops
               \<lparr>row = 3, col = 3, mvec = map Symbol [s0, s1, s2, s3, s4, s5, s6, s7, s8]\<rparr>)
               (\<lambda>x. Inr (normal x)))
       else determinant_symbolic_perm poly_ops
               \<lparr>row = 3, col = 3, mvec = map Symbol [s0, s1, s2, s3, s4, s5, s6, s7, s8]\<rparr>)"
  by (simp add: determinant_def)

text \<open>
  C1. For every 3 by 3 matrix whose nine entries are symbols (distinct or not), the
  expansion by minors and the sum over the permutations both return, the two results have the
  same normal form and the normal form of their difference is zero, and both agree in the
  same way with the expansion by the formula of Leibniz. \<open>matrix::determinant\<close> returns the
  normal form of the first when its flag is set and the second when it is not. The
  arithmetic and \<open>normal\<close> are those of the model of polynomials.
\<close>

theorem determinant_algorithms_agree:
  assumes "length ss = 9"
  shows "\<exists>dm dp.
      determinant_symbolic_minor poly_ops \<lparr>row = 3, col = 3, mvec = map Symbol ss\<rparr> = Inr dm
    \<and> determinant_symbolic_perm poly_ops \<lparr>row = 3, col = 3, mvec = map Symbol ss\<rparr> = Some (Inr dp)
    \<and> determinant poly_ops \<lparr>row = 3, col = 3, mvec = map Symbol ss\<rparr> True = Some (Inr (normal dm))
    \<and> determinant poly_ops \<lparr>row = 3, col = 3, mvec = map Symbol ss\<rparr> False = Some (Inr dp)
    \<and> normal dm = normal dp
    \<and> normal (poly_sub dm dp) = Numeric 0
    \<and> normal dm = normal (leibniz3 poly_ops (\<lambda>i j. Symbol (ss ! (3 * i + j))))
    \<and> normal dp = normal (leibniz3 poly_ops (\<lambda>i j. Symbol (ss ! (3 * i + j))))
    \<and> normal (poly_sub dm (leibniz3 poly_ops (\<lambda>i j. Symbol (ss ! (3 * i + j))))) = Numeric 0
    \<and> normal (poly_sub dp (leibniz3 poly_ops (\<lambda>i j. Symbol (ss ! (3 * i + j))))) = Numeric 0"
proof -
  obtain s0 s1 s2 s3 s4 s5 s6 s7 s8 where ss: "ss = [s0, s1, s2, s3, s4, s5, s6, s7, s8]"
    using assms by (rule list_of_length_9)
  show ?thesis
    unfolding ss determinant_symbols leibniz3_symbols minor3 perm3
    by (simp add: determinant3_normal_forms)
qed

theorem determinant_algorithms_agree_witness:
  "\<exists>dm dp.
      determinant_symbolic_minor poly_ops
        \<lparr>row = 3, col = 3, mvec = map Symbol [0, 1, 2, 3, 4, 5, 6, 7, 8]\<rparr> = Inr dm
    \<and> determinant_symbolic_perm poly_ops
        \<lparr>row = 3, col = 3, mvec = map Symbol [0, 1, 2, 3, 4, 5, 6, 7, 8]\<rparr> = Some (Inr dp)
    \<and> normal (poly_sub dm dp) = Numeric 0
    \<and> normal dm = normal (leibniz3 poly_ops (\<lambda>i j. Symbol ([0, 1, 2, 3, 4, 5, 6, 7, 8] ! (3 * i + j))))"
  using determinant_algorithms_agree [of "[0, 1, 2, 3, 4, 5, 6, 7, 8]"] by simp blast

subsection \<open>Exceptions of lsolve\<close>


































end
